theory Spec2Isabelle
  imports Complex_Main "HOL-Library.Word" "HOL-Library.Multiset" "HOL-Library.Product_Lexorder"
begin

section \<open>The cascade hashing array matcher\<close>

text \<open>
  A shallow embedding of \<^verbatim>\<open>ArrayMatcher_cascadeHashing\<close>
  (\<^verbatim>\<open>src/aliceVision/matching/ArrayMatcher_cascadeHashing.hpp\<close>): the class
  that builds a cascade hashing index over a dataset of descriptors and answers batched
  nearest-neighbour queries.

  The class is a thin layer over \<^verbatim>\<open>CascadeHasher\<close>, which lives in another
  file, \<^verbatim>\<open>CascadeHasher.hpp\<close>. The four members of it that the class calls are
  parameters of the model (the record
  \<open>hasher_ops\<close>), and every theorem about the class itself holds for all of them.
  A second part of the theory gives one instance of these parameters, written after the
  prose description of the hashing and matching algorithm.
\<close>

subsection \<open>Data\<close>

text \<open>
  \<^verbatim>\<open>int\<close> arguments are 32-bit words read as two's complement (\<open>sint\<close>);
  \<^verbatim>\<open>size_t\<close> is a 64-bit word read unsigned.
\<close>

type_synonym c_int = "32 word"
type_synonym size_t = "64 word"

text \<open>
  \<^verbatim>\<open>Eigen::Map<BaseMat>(ptr, rows, cols)\<close>: a row-major view of \<open>rows \<times> cols\<close>
  scalars over memory owned by the caller. The pointer is modelled by the buffer it points
  to; \<open>rows\<close> and \<open>cols\<close> are of type \<^verbatim>\<open>Eigen::Index\<close> (signed), kept as
  integers. Constructing the view reads nothing.
\<close>

record 'a EigenMap =
  data :: "'a list"
  rows :: int
  cols :: int

text \<open>\<^verbatim>\<open>IndMatch(i, j)\<close>: query row \<open>i\<close> is matched with dataset row \<open>j\<close>.\<close>

datatype IndMatch = IndMatch nat nat

text \<open>
  The members of \<^verbatim>\<open>CascadeHasher\<close> the class calls. \<open>Init\<close> is a method of the
  member object \<^verbatim>\<open>cascade_hasher_\<close> and draws from the random generator it gets by
  reference: it maps the old hasher and the generator to the new hasher and the advanced
  generator. \<open>GetZeroMeanDescriptor\<close> is static. \<open>CreateHashedDescriptions\<close> and
  \<open>Match_HashedDescriptions\<close> read the hasher; the latter appends to the two output
  vectors it gets by pointer.
\<close>

record ('g, 'a, 'h, 'z, 'hd, 'd) hasher_ops =
  Init :: "'h \<Rightarrow> 'g \<Rightarrow> int \<Rightarrow> 'h \<times> 'g"
  GetZeroMeanDescriptor :: "'a EigenMap \<Rightarrow> 'z"
  CreateHashedDescriptions :: "'h \<Rightarrow> 'a EigenMap \<Rightarrow> 'z \<Rightarrow> 'hd"
  Match_HashedDescriptions ::
    "'h \<Rightarrow> 'hd \<Rightarrow> 'a EigenMap \<Rightarrow> 'hd \<Rightarrow> 'a EigenMap \<Rightarrow>
     IndMatch list \<Rightarrow> 'd list \<Rightarrow> size_t \<Rightarrow> IndMatch list \<times> 'd list"

text \<open>
  The private members of the class. \<open>memMapping\<close> is a \<^verbatim>\<open>std::unique_ptr\<close>:
  \<open>None\<close> is the null pointer.
\<close>

record ('a, 'h, 'z, 'hd) matcher =
  memMapping :: "'a EigenMap option"
  cascade_hasher :: 'h
  hashed_base :: 'hd
  zero_mean_descriptor :: 'z

text \<open>
  The constructor leaves \<open>memMapping\<close> null and default-constructs the other members;
  their default values are parameters.
\<close>

definition ArrayMatcher_cascadeHashing :: "'h \<Rightarrow> 'hd \<Rightarrow> 'z \<Rightarrow> ('a, 'h, 'z, 'hd) matcher" where
  "ArrayMatcher_cascadeHashing h0 hd0 z0 =
     \<lparr>memMapping = None, cascade_hasher = h0, hashed_base = hd0, zero_mean_descriptor = z0\<rparr>"

subsection \<open>Build\<close>

text \<open>
  \<^verbatim>\<open>bool Build(std::mt19937 & gen, const Scalar * dataset, int nbRows, int dimension)\<close>.
  The result is the returned flag, the matcher after the call and the generator after the
  call. \<open>dimension\<close> is not inspected; the value \<open>Init\<close> returns is not used.
  With at least one row, a negative \<open>dimension\<close> is outside the precondition of
  \<^verbatim>\<open>Eigen::Map\<close>; no theorem below speaks about that case. Running out of memory
  (\<^verbatim>\<open>std::bad_alloc\<close>, here from \<^verbatim>\<open>new\<close>) depends on the machine and is
  not part of the model.
\<close>

definition Build ::
  "('g, 'a, 'h, 'z, 'hd, 'd) hasher_ops \<Rightarrow> ('a, 'h, 'z, 'hd) matcher \<Rightarrow> 'g \<Rightarrow> 'a list \<Rightarrow>
   c_int \<Rightarrow> c_int \<Rightarrow> bool \<times> ('a, 'h, 'z, 'hd) matcher \<times> 'g" where
  "Build ops m gen dataset nbRows dimension =
     (if sint nbRows < 1 then (False, m\<lparr>memMapping := None\<rparr>, gen)
      else
        let mm = \<lparr>data = dataset, rows = sint nbRows, cols = sint dimension\<rparr>;
            (h, gen') = Init ops (cascade_hasher m) gen (sint dimension);
            zm = GetZeroMeanDescriptor ops mm;
            hb = CreateHashedDescriptions ops h mm zm
        in (True,
            \<lparr>memMapping = Some mm, cascade_hasher = h, hashed_base = hb,
             zero_mean_descriptor = zm\<rparr>,
            gen'))"

subsection \<open>Single query\<close>

text \<open>
  \<^verbatim>\<open>bool SearchNeighbour(const Scalar * query, int * indice, DistanceType * distance)\<close>
  logs a warning and returns false. The macro \<^verbatim>\<open>ALICEVISION_LOG_WARNING\<close> comes
  from the logger, another file: it is the parameter \<open>LOG_WARNING\<close>, which maps a message
  and the state of the log to the new state of the log. The two output arguments are given
  by the values they point to, and returned as they are left.
\<close>

definition single_query_warning :: string where
  "single_query_warning = ''This matcher is not made to match a single query''"

definition SearchNeighbour ::
  "(string \<Rightarrow> 'l \<Rightarrow> 'l) \<Rightarrow> ('a, 'h, 'z, 'hd) matcher \<Rightarrow> 'a list \<Rightarrow> int \<Rightarrow> 'd \<Rightarrow> 'l \<Rightarrow>
   bool \<times> int \<times> 'd \<times> 'l" where
  "SearchNeighbour LOG_WARNING m query indice distance logged =
     (False, indice, distance, LOG_WARNING single_query_warning logged)"

subsection \<open>Batch of queries\<close>

text \<open>
  \<^verbatim>\<open>bool SearchNeighbours(const Scalar * query, int nbQuery, IndMatches * pvec_indices,
  std::vector<DistanceType> * pvec_distances, size_t NN)\<close>.
  The comparison \<^verbatim>\<open>NN > (*memMapping).rows()\<close> is between a \<^verbatim>\<open>size_t\<close> and a
  signed index: the index is converted to \<^verbatim>\<open>size_t\<close> and the comparison is unsigned.
  No member is written. The result is either an exception, or the returned flag and the
  two output vectors as the call leaves them.

  The two calls \<^verbatim>\<open>reserve(nbQuery * NN)\<close> come before any call of the hasher. The
  product is taken in \<^verbatim>\<open>size_t\<close>: \<open>nbQuery\<close> is converted and the multiplication
  wraps around. \<^verbatim>\<open>std::vector<T>::reserve(n)\<close> throws \<^verbatim>\<open>std::length_error\<close>
  when \<open>n\<close> exceeds \<^verbatim>\<open>max_size()\<close>, which is \<^verbatim>\<open>PTRDIFF_MAX / sizeof(T)\<close> in the
  GNU library on a 64-bit machine: it throws when \<open>n * sizeof(T)\<close> exceeds \<open>2^63 - 1\<close>.
  The sizes of the two element types are constants of the platform, and parameters here;
  the elements are a pair of 32-bit indices and a scalar, and their sizes are kept as
  32-bit quantities. Otherwise \<^verbatim>\<open>reserve\<close> changes the capacity only. Running out of
  memory (\<^verbatim>\<open>std::bad_alloc\<close>) depends on the machine and is not part of the model.
\<close>

datatype exception = length_error

record platform =
  sizeof_DistanceType :: "32 word"
  sizeof_IndMatch :: "32 word"

definition PTRDIFF_MAX :: int where
  "PTRDIFF_MAX = 2 ^ 63 - 1"

definition reserve_throws :: "32 word \<Rightarrow> size_t \<Rightarrow> bool" where
  "reserve_throws sizeof_T n \<longleftrightarrow> PTRDIFF_MAX < uint n * uint sizeof_T"

definition SearchNeighbours ::
  "platform \<Rightarrow> ('g, 'a, 'h, 'z, 'hd, 'd) hasher_ops \<Rightarrow> ('a, 'h, 'z, 'hd) matcher \<Rightarrow> 'a list \<Rightarrow>
   c_int \<Rightarrow> IndMatch list \<Rightarrow> 'd list \<Rightarrow> size_t \<Rightarrow>
   exception + bool \<times> IndMatch list \<times> 'd list" where
  "SearchNeighbours plat ops m query nbQuery pvec_indices pvec_distances NN =
     (case memMapping m of
        None \<Rightarrow> Inr (False, pvec_indices, pvec_distances)
      | Some mm \<Rightarrow>
          if (word_of_int (rows mm) :: size_t) < NN \<or> sint nbQuery < 1
          then Inr (False, pvec_indices, pvec_distances)
          else
            let mat_query = \<lparr>data = query, rows = sint nbQuery, cols = cols mm\<rparr> in
            if reserve_throws (sizeof_DistanceType plat) (scast nbQuery * NN)
            then Inl length_error
            else if reserve_throws (sizeof_IndMatch plat) (scast nbQuery * NN)
            then Inl length_error
            else
              let hashed_query =
                    CreateHashedDescriptions ops (cascade_hasher m) mat_query
                      (zero_mean_descriptor m);
                  (is, ds) =
                    Match_HashedDescriptions ops (cascade_hasher m) hashed_query mat_query
                      (hashed_base m) mm pvec_indices pvec_distances NN
              in Inr (True, is, ds))"

section \<open>The hasher, after its description\<close>

text \<open>
  The definitions of this section follow the prose description of the hashing model, the
  hashed index and the batch matcher. Scalars and distances are elements of an ordered
  field (exact arithmetic stands for the floating-point numbers of the program).
\<close>

subsection \<open>Rows of a view\<close>

text \<open>
  Modelled from the spec: the descriptor set a view stands for, "an ordered sequence of
  fixed-dimension real vectors (rows)"; the code reading the rows of an
  \<^verbatim>\<open>Eigen::Map\<close> is inside \<^verbatim>\<open>CascadeHasher\<close>, which is missing. Row \<open>i\<close> of a
  row-major view of \<open>d\<close> columns is the \<open>d\<close> scalars from offset \<open>i * d\<close> on. A buffer
  shorter than \<open>rows * cols\<close> is outside the precondition of the view (the program would
  read past its end); here such a row is cut short.
\<close>

definition row_at :: "'a list \<Rightarrow> nat \<Rightarrow> nat \<Rightarrow> 'a list" where
  "row_at buf d i = take d (drop (i * d) buf)"

definition rows_of :: "'a EigenMap \<Rightarrow> 'a list list" where
  "rows_of v = map (row_at (data v) (nat (cols v))) [0..<nat (rows v)]"

subsection \<open>Hashing model\<close>

text \<open>
  Modelled from the spec: the recognised options of the missing \<^verbatim>\<open>CascadeHasher\<close>,
  "primary code bit-width, secondary code bit-width, minimum-candidate threshold,
  shortlist size multiplier".
\<close>

record config =
  primary_bits :: nat
  secondary_bits :: nat
  min_candidates :: nat
  shortlist_mult :: nat

text \<open>
  Modelled from the spec: the state of the missing \<^verbatim>\<open>CascadeHasher\<close>, "one primary
  random projection" and, of the "one or more secondary random projections", one; each is
  a list of hyperplanes, one per bit of the code.
\<close>

record 'a hashing_model =
  primary_projection :: "'a list list"
  secondary_projection :: "'a list list"

text \<open>
  Modelled from the spec: drawing the entries of a projection of the missing
  \<^verbatim>\<open>CascadeHasher::Init\<close> from the random source, one after the other. The source
  is a generator state \<open>'g\<close> with a function \<open>draw\<close> giving the next entry and the next
  state.
\<close>

fun draw_row :: "('g \<Rightarrow> 'a \<times> 'g) \<Rightarrow> nat \<Rightarrow> 'g \<Rightarrow> 'a list \<times> 'g" where
  "draw_row draw 0 g = ([], g)"
| "draw_row draw (Suc n) g =
     (let (x, g1) = draw g; (xs, g2) = draw_row draw n g1 in (x # xs, g2))"

fun draw_matrix :: "('g \<Rightarrow> 'a \<times> 'g) \<Rightarrow> nat \<Rightarrow> nat \<Rightarrow> 'g \<Rightarrow> 'a list list \<times> 'g" where
  "draw_matrix draw 0 c g = ([], g)"
| "draw_matrix draw (Suc r) c g =
     (let (p, g1) = draw_row draw c g; (ps, g2) = draw_matrix draw r c g1 in (p # ps, g2))"

text \<open>
  Modelled from the spec: \<open>Fit(seeded_random_source, dimension) \<rightarrow> Model\<close> of the missing
  \<^verbatim>\<open>CascadeHasher::Init\<close>, "deterministic given the same random source state",
  which "fails if dimension \<le> 0" (\<open>None\<close>).
\<close>

definition Fit :: "config \<Rightarrow> ('g \<Rightarrow> 'a \<times> 'g) \<Rightarrow> 'g \<Rightarrow> int \<Rightarrow> ('a hashing_model \<times> 'g) option" where
  "Fit cfg draw gen dimension =
     (if dimension \<le> 0 then None
      else
        let (P, g1) = draw_matrix draw (primary_bits cfg) (nat dimension) gen;
            (S, g2) = draw_matrix draw (secondary_bits cfg) (nat dimension) g1
        in Some (\<lparr>primary_projection = P, secondary_projection = S\<rparr>, g2))"

text \<open>
  Modelled from the spec: \<open>ZeroMean(dataset)\<close> of the missing
  \<^verbatim>\<open>CascadeHasher::GetZeroMeanDescriptor\<close>, the element-wise mean of the rows.
\<close>

definition ZeroMean :: "'a::field list list \<Rightarrow> 'a list" where
  "ZeroMean vectors =
     (case vectors of
        [] \<Rightarrow> []
      | r # rs \<Rightarrow> map (\<lambda>s. s / of_nat (length vectors)) (foldl (map2 (+)) r rs))"

text \<open>
  Modelled from the spec: the hashed descriptor of the missing \<^verbatim>\<open>CascadeHasher\<close>,
  "(zero-centered vector, primary code, secondary code)".
\<close>

record 'a hashed_descriptor =
  zero_centered :: "'a list"
  primary_code :: "bool list"
  secondary_code :: "bool list"

text \<open>
  Modelled from the spec: "project through [the] matrix and binarize (sign of each
  projected coordinate \<rightarrow> one bit)", a step of the missing
  \<^verbatim>\<open>CascadeHasher::CreateHashedDescriptions\<close>. A projected coordinate is the dot
  product of a hyperplane with the vector; its bit is set when it is positive.
\<close>

definition dot :: "'a::semiring_0 list \<Rightarrow> 'a list \<Rightarrow> 'a" where
  "dot u v = sum_list (map2 (*) u v)"

definition binarize :: "'a::linordered_idom list list \<Rightarrow> 'a list \<Rightarrow> bool list" where
  "binarize P v = map (\<lambda>p. 0 < dot p v) P"

text \<open>
  Modelled from the spec: \<open>Hash(vectors, zero_mean)\<close> of the missing
  \<^verbatim>\<open>CascadeHasher::CreateHashedDescriptions\<close>: "for each input row: subtract
  zero_mean", then form the primary and the secondary code.
\<close>

definition hash_row :: "'a::linordered_idom hashing_model \<Rightarrow> 'a list \<Rightarrow> 'a list \<Rightarrow> 'a hashed_descriptor" where
  "hash_row model zero_mean row =
     (let c = map2 (-) row zero_mean
      in \<lparr>zero_centered = c,
          primary_code = binarize (primary_projection model) c,
          secondary_code = binarize (secondary_projection model) c\<rparr>)"

definition Hash :: "'a::linordered_idom hashing_model \<Rightarrow> 'a list list \<Rightarrow> 'a list \<Rightarrow> 'a hashed_descriptor list" where
  "Hash model vectors zero_mean = map (hash_row model zero_mean) vectors"

subsection \<open>Hashed index\<close>

text \<open>
  Modelled from the spec: the bucket map of the missing \<^verbatim>\<open>HashedDescriptions\<close>,
  "keyed by primary code \<rightarrow> list of dataset row indices", constructed "by a single pass"
  over the rows.
\<close>

type_synonym bucket_map = "(bool list \<times> nat list) list"

fun bucket_add :: "bool list \<Rightarrow> nat \<Rightarrow> bucket_map \<Rightarrow> bucket_map" where
  "bucket_add c i [] = [(c, [i])]"
| "bucket_add c i ((c', js) # bm) =
     (if c = c' then (c', js @ [i]) # bm else (c', js) # bucket_add c i bm)"

definition make_buckets :: "bool list list \<Rightarrow> bucket_map" where
  "make_buckets codes = foldl (\<lambda>bm (i, c). bucket_add c i bm) [] (enumerate 0 codes)"

text \<open>
  Modelled from the spec: the missing \<^verbatim>\<open>HashedDescriptions\<close>, "the full set of
  dataset Hashed Descriptors plus a bucket map", and how the missing
  \<^verbatim>\<open>CascadeHasher::CreateHashedDescriptions\<close> makes one: it "hashes the dataset,
  and constructs the bucket map".
\<close>

record 'a HashedDescriptions =
  hashed_desc :: "'a hashed_descriptor list"
  buckets :: bucket_map

definition hashed_descriptions :: "'a::linordered_idom hashing_model \<Rightarrow> 'a list list \<Rightarrow> 'a list \<Rightarrow> 'a HashedDescriptions" where
  "hashed_descriptions model vectors zero_mean =
     (let hs = Hash model vectors zero_mean
      in \<lparr>hashed_desc = hs, buckets = make_buckets (map primary_code hs)\<rparr>)"

subsection \<open>Batch matcher\<close>

text \<open>
  Modelled from the spec: the "Hamming distance" between two codes, used by the missing
  \<^verbatim>\<open>CascadeHasher::Match_HashedDescriptions\<close>: the number of positions where they
  differ.
\<close>

definition hamming :: "bool list \<Rightarrow> bool list \<Rightarrow> nat" where
  "hamming a b = length (filter (\<lambda>(x, y). x \<noteq> y) (zip a b))"

text \<open>
  Modelled from the spec: candidate generation of the missing
  \<^verbatim>\<open>CascadeHasher::Match_HashedDescriptions\<close>: "start with the dataset rows sharing
  q's exact primary bucket. If that bucket's size is below a configured minimum candidate
  threshold, progressively probe buckets at increasing Hamming distance from q's primary
  code (1 bit flipped, then 2, ...) until either the threshold is met or all buckets are
  exhausted". \<open>bucket_rows_at bm code r\<close> are the rows of the buckets at distance \<open>r\<close>.
\<close>

definition bucket_rows_at :: "bucket_map \<Rightarrow> bool list \<Rightarrow> nat \<Rightarrow> nat list" where
  "bucket_rows_at bm code r = concat (map snd (filter (\<lambda>(c, js). hamming c code = r) bm))"

function probe :: "nat \<Rightarrow> bucket_map \<Rightarrow> bool list \<Rightarrow> nat \<Rightarrow> nat list \<Rightarrow> nat list" where
  "probe threshold bm code r acc =
     (if threshold \<le> length acc \<or> length code \<le> r then acc
      else probe threshold bm code (Suc r) (acc @ bucket_rows_at bm code (Suc r)))"
  by pat_completeness auto
termination
  by (relation "measure (\<lambda>(threshold, bm, code, r, acc). length code - r)") auto

definition candidates :: "nat \<Rightarrow> bucket_map \<Rightarrow> bool list \<Rightarrow> nat list" where
  "candidates threshold bm code = probe threshold bm code 0 (bucket_rows_at bm code 0)"

text \<open>
  Modelled from the spec: ranking of the missing
  \<^verbatim>\<open>CascadeHasher::Match_HashedDescriptions\<close>: "compute Hamming distance between
  q's secondary code and each candidate's secondary code; sort ascending; keep a bounded
  shortlist (configurable size \<ge> k, default a small multiple of k)".
\<close>

definition shortlist ::
  "config \<Rightarrow> nat \<Rightarrow> 'a hashed_descriptor list \<Rightarrow> bool list \<Rightarrow> nat list \<Rightarrow> nat list" where
  "shortlist cfg k base code cands =
     take (shortlist_mult cfg * k)
       (sort_key (\<lambda>j. hamming (secondary_code (base ! j)) code) cands)"

text \<open>
  Modelled from the spec: the "true squared Euclidean distance" of the missing
  \<^verbatim>\<open>CascadeHasher::Match_HashedDescriptions\<close>.
\<close>

definition sqdist :: "'a::ring list \<Rightarrow> 'a list \<Rightarrow> 'a" where
  "sqdist u v = sum_list (map2 (\<lambda>x y. (x - y) * (x - y)) u v)"

text \<open>
  Modelled from the spec: exact re-scoring and emission of the missing
  \<^verbatim>\<open>CascadeHasher::Match_HashedDescriptions\<close>: "compute true squared Euclidean
  distance between q and each shortlisted candidate" (here on the raw vectors, for the
  query and the candidate alike), then "emit the k smallest-distance candidates in
  ascending order; ties broken by smaller dataset row index". Pairs (distance, row) are
  ordered lexicographically.
\<close>

definition search_row ::
  "config \<Rightarrow> nat \<Rightarrow> 'a::linordered_idom HashedDescriptions \<Rightarrow> 'a list list \<Rightarrow>
   'a hashed_descriptor \<Rightarrow> 'a list \<Rightarrow> ('a \<times> nat) list" where
  "search_row cfg k base base_rows q q_row =
     (let cands = candidates (min_candidates cfg) (buckets base) (primary_code q);
          short = shortlist cfg k (hashed_desc base) (secondary_code q) cands;
          scored = map (\<lambda>j. (sqdist q_row (base_rows ! j), j)) short
      in take k (sort scored))"

text \<open>
  Modelled from the spec: \<open>Search(index, hashing_model, query_dataset, k)\<close> of the missing
  \<^verbatim>\<open>CascadeHasher::Match_HashedDescriptions\<close>, one match result per query row, in
  the order of the query rows, appended to the two output vectors.
\<close>

definition match_results ::
  "config \<Rightarrow> nat \<Rightarrow> 'a::linordered_idom HashedDescriptions \<Rightarrow> 'a EigenMap \<Rightarrow>
   'a HashedDescriptions \<Rightarrow> 'a EigenMap \<Rightarrow> nat \<Rightarrow> ('a \<times> nat) list" where
  "match_results cfg k hashed_query mat_query base mat_base i =
     search_row cfg k base (rows_of mat_base) (hashed_desc hashed_query ! i)
       (rows_of mat_query ! i)"

definition Search ::
  "config \<Rightarrow> 'a::linordered_idom HashedDescriptions \<Rightarrow> 'a EigenMap \<Rightarrow>
   'a HashedDescriptions \<Rightarrow> 'a EigenMap \<Rightarrow> IndMatch list \<Rightarrow> 'a list \<Rightarrow> size_t \<Rightarrow>
   IndMatch list \<times> 'a list" where
  "Search cfg hashed_query mat_query base mat_base pvec_indices pvec_distances NN =
     (let res = match_results cfg (unat NN) hashed_query mat_query base mat_base;
          qs = [0..<length (hashed_desc hashed_query)]
      in (pvec_indices @ concat (map (\<lambda>i. map (\<lambda>(d, j). IndMatch i j) (res i)) qs),
          pvec_distances @ concat (map (\<lambda>i. map fst (res i)) qs)))"

text \<open>
  Modelled from the spec: the four members of the missing \<^verbatim>\<open>CascadeHasher\<close> as
  the class calls them. A failed \<open>Fit\<close> leaves a model without hyperplanes and the
  generator as it was.
\<close>

definition cascade_hasher_ops ::
  "config \<Rightarrow> ('g \<Rightarrow> 'a \<times> 'g) \<Rightarrow>
   ('g, 'a::linordered_field, 'a hashing_model, 'a list, 'a HashedDescriptions, 'a) hasher_ops" where
  "cascade_hasher_ops cfg draw =
     \<lparr>Init = (\<lambda>h gen dimension.
         case Fit cfg draw gen dimension of
           None \<Rightarrow> (\<lparr>primary_projection = [], secondary_projection = []\<rparr>, gen)
         | Some r \<Rightarrow> r),
      GetZeroMeanDescriptor = (\<lambda>v. ZeroMean (rows_of v)),
      CreateHashedDescriptions = (\<lambda>h v zero_mean. hashed_descriptions h (rows_of v) zero_mean),
      Match_HashedDescriptions = (\<lambda>h. Search cfg)\<rparr>"

section \<open>Auxiliary notions\<close>

text \<open>All rows of a bucket map, and the rows of its buckets within a Hamming radius.\<close>

definition all_rows :: "bucket_map \<Rightarrow> nat list" where
  "all_rows bm = concat (map snd bm)"

definition rows_within :: "bucket_map \<Rightarrow> bool list \<Rightarrow> nat \<Rightarrow> nat list" where
  "rows_within bm code r = concat (map snd (filter (\<lambda>(c, js). hamming c code \<le> r) bm))"

text \<open>One of the two \<^verbatim>\<open>reserve\<close> calls of a batch search throws.\<close>

definition reserves_throw :: "platform \<Rightarrow> c_int \<Rightarrow> size_t \<Rightarrow> bool" where
  "reserves_throw plat nbQuery NN \<longleftrightarrow>
     reserve_throws (sizeof_DistanceType plat) (scast nbQuery * NN) \<or>
     reserve_throws (sizeof_IndMatch plat) (scast nbQuery * NN)"

text \<open>
  The order of the emitted pairs (distance, row): ascending by distance, ties broken by
  the smaller row index.
\<close>

definition lex_less :: "'a::order \<times> nat \<Rightarrow> 'a \<times> nat \<Rightarrow> bool" where
  "lex_less p q \<longleftrightarrow> fst p < fst q \<or> (fst p = fst q \<and> snd p < snd q)"

subsection \<open>A small instance\<close>

text \<open>
  The inputs of the examples: a platform with scalars of four bytes and pairs of indices of
  eight, a log that keeps the messages, a random source that steps through a short cycle
  of integers, a configuration, a freshly constructed matcher, and the dataset of four
  two-dimensional rows \<open>(0, 0), (10, 10), (0, 10), (10, 0)\<close> with the index built over it.
  A second configuration asks for one candidate only before ranking.
\<close>

definition sample_platform :: platform where
  "sample_platform = \<lparr>sizeof_DistanceType = 4, sizeof_IndMatch = 8\<rparr>"

definition sample_log :: "string \<Rightarrow> string list \<Rightarrow> string list" where
  "sample_log msg logged = logged @ [msg]"

definition sample_draw :: "nat \<Rightarrow> rat \<times> nat" where
  "sample_draw g = (of_int (int ((g * 5 + 3) mod 7) - 3), Suc g)"

definition sample_config :: config where
  "sample_config = \<lparr>primary_bits = 2, secondary_bits = 3, min_candidates = 4, shortlist_mult = 2\<rparr>"

definition sample_ops :: "(nat, rat, rat hashing_model, rat list, rat HashedDescriptions, rat) hasher_ops" where
  "sample_ops = cascade_hasher_ops sample_config sample_draw"

definition sparse_config :: config where
  "sparse_config = \<lparr>primary_bits = 2, secondary_bits = 3, min_candidates = 1, shortlist_mult = 2\<rparr>"

definition sparse_ops :: "(nat, rat, rat hashing_model, rat list, rat HashedDescriptions, rat) hasher_ops" where
  "sparse_ops = cascade_hasher_ops sparse_config sample_draw"

definition sample_matcher :: "(rat, rat hashing_model, rat list, rat HashedDescriptions) matcher" where
  "sample_matcher =
     ArrayMatcher_cascadeHashing \<lparr>primary_projection = [], secondary_projection = []\<rparr>
       \<lparr>hashed_desc = [], buckets = []\<rparr> []"

definition sample_dataset :: "rat list" where
  "sample_dataset = [0, 0, 10, 10, 0, 10, 10, 0]"

definition sample_index :: "(rat, rat hashing_model, rat list, rat HashedDescriptions) matcher" where
  "sample_index = fst (snd (Build sample_ops sample_matcher 0 sample_dataset 4 2))"

text \<open>The index built over \<open>2^31 - 1\<close> rows of dimension zero.\<close>

definition large_index :: "(rat, rat hashing_model, rat list, rat HashedDescriptions) matcher" where
  "large_index = fst (snd (Build sample_ops sample_matcher 0 [] 2147483647 0))"

section \<open>Lemmas\<close>

subsection \<open>The class\<close>

lemma Build_True:
  assumes "Build ops m0 gen dataset nbRows dimension = (True, m, gen')"
  shows "1 \<le> sint nbRows"
    and "memMapping m = Some \<lparr>data = dataset, rows = sint nbRows, cols = sint dimension\<rparr>"
    and "cascade_hasher m = fst (Init ops (cascade_hasher m0) gen (sint dimension))"
    and "zero_mean_descriptor m =
           GetZeroMeanDescriptor ops \<lparr>data = dataset, rows = sint nbRows, cols = sint dimension\<rparr>"
    and "hashed_base m =
           CreateHashedDescriptions ops (cascade_hasher m)
             \<lparr>data = dataset, rows = sint nbRows, cols = sint dimension\<rparr> (zero_mean_descriptor m)"
    and "gen' = snd (Init ops (cascade_hasher m0) gen (sint dimension))"
  using assms by (auto simp: Build_def Let_def split: if_splits prod.splits)

lemma Build_False:
  "Build ops m0 gen dataset nbRows dimension = (False, m, gen') \<longleftrightarrow>
     sint nbRows < 1 \<and> m = m0\<lparr>memMapping := None\<rparr> \<and> gen' = gen"
  by (auto simp: Build_def Let_def split: if_splits prod.splits)

lemma Build_succeeds:
  assumes "1 \<le> sint nbRows"
  shows "Build ops m0 gen dataset nbRows dimension =
     (True, fst (snd (Build ops m0 gen dataset nbRows dimension)),
      snd (snd (Build ops m0 gen dataset nbRows dimension)))"
  using assms by (simp add: Build_def Let_def split: prod.splits)

lemma size_t_of_rows:
  fixes w :: c_int and NN :: size_t
  assumes "0 \<le> sint w"
  shows "((word_of_int (sint w) :: size_t) < NN) = (nat (sint w) < unat NN)"
proof -
  have "sint w < 2 ^ 31" using sint_lt[of w] by simp
  moreover have "(2::int) ^ 31 \<le> 2 ^ 64" by (rule power_increasing) simp_all
  ultimately have "sint w < 2 ^ 64" by (rule less_le_trans)
  then have "take_bit 64 (sint w) = sint w" using assms by (simp add: take_bit_int_eq_self)
  moreover have "uint (word_of_int (sint w) :: size_t) = take_bit 64 (sint w)"
    by (subst uint_word_of_int_eq) simp
  ultimately have "uint (word_of_int (sint w) :: size_t) = sint w" by (simp only:)
  then have "unat (word_of_int (sint w) :: size_t) = nat (sint w)"
    by (simp only: unat_eq_nat_uint)
  then show ?thesis by (simp only: word_less_nat_alt)
qed

lemma SearchNeighbours_rejects:
  assumes "memMapping m = None \<or>
     (\<exists>mm. memMapping m = Some mm \<and> ((word_of_int (rows mm) :: size_t) < NN \<or> sint nbQuery < 1))"
  shows "SearchNeighbours plat ops m query nbQuery pvec_indices pvec_distances NN =
     Inr (False, pvec_indices, pvec_distances)"
  using assms by (auto simp: SearchNeighbours_def)

lemma SearchNeighbours_built:
  assumes "Build ops m0 gen dataset nbRows dimension = (True, m, gen')"
  shows "SearchNeighbours plat ops m query nbQuery pvec_indices pvec_distances NN =
     (if nat (sint nbRows) < unat NN \<or> sint nbQuery < 1
      then Inr (False, pvec_indices, pvec_distances)
      else if reserves_throw plat nbQuery NN then Inl length_error
      else
        Inr (True,
          Match_HashedDescriptions ops (cascade_hasher m)
            (CreateHashedDescriptions ops (cascade_hasher m)
               \<lparr>data = query, rows = sint nbQuery, cols = sint dimension\<rparr>
               (zero_mean_descriptor m))
            \<lparr>data = query, rows = sint nbQuery, cols = sint dimension\<rparr>
            (hashed_base m)
            \<lparr>data = dataset, rows = sint nbRows, cols = sint dimension\<rparr>
            pvec_indices pvec_distances NN))"
proof -
  let ?mm = "\<lparr>data = dataset, rows = sint nbRows, cols = sint dimension\<rparr>"
  note B = Build_True[OF assms]
  have lt: "((word_of_int (rows ?mm) :: size_t) < NN) = (nat (sint nbRows) < unat NN)"
    using size_t_of_rows[of nbRows NN] B(1) by simp
  show ?thesis
    using B(2) lt
    by (simp add: SearchNeighbours_def reserves_throw_def Let_def split: prod.splits)
qed


lemma uint_sizeof_le: "uint (sz :: 32 word) \<le> 4294967295"
proof -
  have "uint sz < 2 ^ LENGTH(32)" by (rule uint_lt2p)
  moreover have "(2::int) ^ LENGTH(32) = 4294967296" by simp
  ultimately have "uint sz < 4294967296" by (simp only:)
  then show ?thesis by arith
qed

lemma sint_c_int_le: "sint (w :: c_int) \<le> 2147483647"
proof -
  have "sint w < 2 ^ (LENGTH(32) - 1)" by (rule sint_lt)
  moreover have "(2::int) ^ (LENGTH(32) - 1) = 2147483648" by simp
  ultimately have "sint w < 2147483648" by (simp only:)
  then show ?thesis by arith
qed

lemma one_row_reserve:
  fixes NN :: size_t and nbRows :: c_int
  assumes "unat NN \<le> nat (sint nbRows)"
  shows "\<not> reserves_throw plat 1 NN"
proof -
  have n: "uint NN \<le> 2147483647"
  proof -
    have "int (unat NN) \<le> int (nat (sint nbRows))" using assms by (simp only: of_nat_le_iff)
    moreover have "int (nat (sint nbRows)) \<le> 2147483647"
      using sint_c_int_le[of nbRows] by simp
    ultimately show ?thesis by simp
  qed
  have b: "uint NN * uint sz \<le> PTRDIFF_MAX" for sz :: "32 word"
  proof -
    have "uint NN * uint sz \<le> 2147483647 * 4294967295"
      using n uint_sizeof_le[of sz] by (intro mult_mono) simp_all
    also have "(2147483647 :: int) * 4294967295 \<le> PTRDIFF_MAX" by (simp add: PTRDIFF_MAX_def)
    finally show ?thesis .
  qed
  have "(scast (1 :: c_int) :: size_t) * NN = NN" by simp
  then show ?thesis
    using b[of "sizeof_DistanceType plat"] b[of "sizeof_IndMatch plat"]
    by (simp add: reserves_throw_def reserve_throws_def not_less)
qed

subsection \<open>Views and hashed descriptions\<close>

lemma length_rows_of: "length (rows_of v) = nat (rows v)"
  by (simp add: rows_of_def)

lemma nth_rows_of: "i < nat (rows v) \<Longrightarrow> rows_of v ! i = row_at (data v) (nat (cols v)) i"
  by (simp add: rows_of_def)

lemma hashed_descriptions_simps:
  "length (hashed_desc (hashed_descriptions h vs zm)) = length vs"
  "buckets (hashed_descriptions h vs zm) = make_buckets (map primary_code (Hash h vs zm))"
  "length (map primary_code (Hash h vs zm)) = length vs"
  by (simp_all add: hashed_descriptions_def Hash_def Let_def)

subsection \<open>Buckets and candidates\<close>

lemma mset_bucket_add: "mset (all_rows (bucket_add c i bm)) = add_mset i (mset (all_rows bm))"
  by (induction bm) (auto simp: all_rows_def)

lemma mset_fold_buckets:
  "mset (all_rows (foldl (\<lambda>bm (i, c). bucket_add c i bm) bm0 (enumerate n cs)))
     = mset (all_rows bm0) + mset [n..<n + length cs]"
proof (induction cs arbitrary: bm0 n)
  case Nil
  then show ?case by simp
next
  case (Cons c cs)
  have "[n..<n + length (c # cs)] = n # [Suc n..<Suc n + length cs]"
    using upt_conv_Cons[of n "n + Suc (length cs)"] by simp
  then show ?case using Cons.IH[of "bucket_add c n bm0" "Suc n"]
    by (simp add: mset_bucket_add)
qed

lemma mset_make_buckets: "mset (all_rows (make_buckets cs)) = mset [0..<length cs]"
  using mset_fold_buckets[of "[]" 0 cs] by (simp add: make_buckets_def all_rows_def)

lemma hamming_le: "hamming a b \<le> length b"
proof -
  have "hamming a b \<le> length (zip a b)" unfolding hamming_def by (rule length_filter_le)
  then show ?thesis by simp
qed

lemma rows_within_all: "length code \<le> r \<Longrightarrow> rows_within bm code r = all_rows bm"
proof -
  assume a: "length code \<le> r"
  have "filter (\<lambda>(c, js). hamming c code \<le> r) bm = bm"
    by (auto intro!: filter_True intro: order_trans[OF hamming_le a])
  then show ?thesis by (simp add: rows_within_def all_rows_def)
qed

lemma distinct_of_mset_subset:
  assumes "mset xs \<subseteq># mset ys" and "distinct ys"
  shows "distinct xs"
proof -
  from assms(1) obtain Z where Z: "mset ys = mset xs + Z"
    by (auto simp: subset_mset.le_iff_add)
  obtain zs where "Z = mset zs" using ex_mset by metis
  with Z have "mset ys = mset (xs @ zs)" by simp
  then have "distinct (xs @ zs)" using assms(2) mset_eq_imp_distinct_iff by blast
  then show ?thesis by simp
qed

lemma rows_within_subset: "mset (rows_within bm code r) \<subseteq># mset (all_rows bm)"
proof (induction bm)
  case Nil
  then show ?case by (simp add: rows_within_def all_rows_def)
next
  case (Cons b bm)
  obtain c js where b: "b = (c, js)" by (cases b)
  show ?case
  proof (cases "hamming c code \<le> r")
    case True
    then show ?thesis using Cons by (simp add: b rows_within_def all_rows_def)
  next
    case False
    have "mset (rows_within bm code r) \<subseteq># mset js + mset (all_rows bm)"
      using Cons by (rule subset_mset.add_increasing[OF empty_le])
    then show ?thesis using False by (simp add: b rows_within_def all_rows_def)
  qed
qed

lemma rows_within_Suc:
  "mset (rows_within bm code (Suc r)) = mset (rows_within bm code r) + mset (bucket_rows_at bm code (Suc r))"
  by (induction bm) (auto simp: rows_within_def bucket_rows_at_def)

lemma rows_within_0: "rows_within bm code 0 = bucket_rows_at bm code 0"
  by (simp add: rows_within_def bucket_rows_at_def)

lemma probe_inv:
  "mset acc = mset (rows_within bm code r) \<Longrightarrow>
   mset (probe T bm code r acc) \<subseteq># mset (all_rows bm) \<and>
   (T \<le> length (probe T bm code r acc) \<or> mset (probe T bm code r acc) = mset (all_rows bm))"
proof (induction T bm code r acc rule: probe.induct)
  case (1 T bm code r acc)
  show ?case
  proof (cases "T \<le> length acc \<or> length code \<le> r")
    case True
    then show ?thesis using "1.prems" rows_within_subset[of bm code r] rows_within_all[of code r bm]
      by auto
  next
    case False
    have "mset (acc @ bucket_rows_at bm code (Suc r)) = mset (rows_within bm code (Suc r))"
      using "1.prems" by (simp add: rows_within_Suc)
    from "1.IH"[OF False this] False show ?thesis by simp
  qed
qed

lemma candidates_props:
  assumes "bm = make_buckets cs"
  shows "distinct (candidates T bm code)"
    and "set (candidates T bm code) \<subseteq> {0..<length cs}"
    and "min T (length cs) \<le> length (candidates T bm code)"
proof -
  let ?c = "candidates T bm code"
  have inv: "mset ?c \<subseteq># mset [0..<length cs] \<and> (T \<le> length ?c \<or> mset ?c = mset [0..<length cs])"
    using probe_inv[of "bucket_rows_at bm code 0" bm code 0 T]
    by (simp add: candidates_def rows_within_0 assms mset_make_buckets)
  then have sub: "mset ?c \<subseteq># mset [0..<length cs]" by simp
  show "distinct ?c" using distinct_of_mset_subset[OF sub] by simp
  show "set ?c \<subseteq> {0..<length cs}" using set_mset_mono[OF sub] by simp
  show "min T (length cs) \<le> length ?c"
  proof -
    from inv have "T \<le> length ?c \<or> mset ?c = mset [0..<length cs]" by simp
    then show ?thesis
    proof
      assume "T \<le> length ?c" then show ?thesis by simp
    next
      assume "mset ?c = mset [0..<length cs]"
      then have "length ?c = length cs" using mset_eq_length by fastforce
      then show ?thesis by simp
    qed
  qed
qed

subsection \<open>Ranking and emission\<close>

lemma shortlist_props:
  assumes "distinct cands"
  shows "distinct (shortlist cfg k base code cands)"
    and "set (shortlist cfg k base code cands) \<subseteq> set cands"
    and "length (shortlist cfg k base code cands) = min (shortlist_mult cfg * k) (length cands)"
proof -
  show "distinct (shortlist cfg k base code cands)"
    using assms by (simp add: shortlist_def)
  show "set (shortlist cfg k base code cands) \<subseteq> set cands"
    using set_take_subset[of "shortlist_mult cfg * k" "sort_key (\<lambda>j. hamming (secondary_code (base ! j)) code) cands"]
    by (simp add: shortlist_def)
  show "length (shortlist cfg k base code cands) = min (shortlist_mult cfg * k) (length cands)"
    by (simp add: shortlist_def)
qed

lemma search_row_props:
  assumes bm: "buckets base = make_buckets cs"
    and kT: "k \<le> min_candidates cfg" and mult: "1 \<le> shortlist_mult cfg" and kN: "k \<le> length cs"
  shows "length (search_row cfg k base base_rows q q_row) = k"
    and "sorted_wrt lex_less (search_row cfg k base base_rows q q_row)"
    and "\<And>d j. (d, j) \<in> set (search_row cfg k base base_rows q q_row) \<Longrightarrow>
           j < length cs \<and> d = sqdist q_row (base_rows ! j)"
proof -
  define cands where "cands = candidates (min_candidates cfg) (buckets base) (primary_code q)"
  define short where "short = shortlist cfg k (hashed_desc base) (secondary_code q) cands"
  define scored where "scored = map (\<lambda>j. (sqdist q_row (base_rows ! j), j)) short"
  have res: "search_row cfg k base base_rows q q_row = take k (sort scored)"
    by (simp add: search_row_def cands_def short_def scored_def)
  have c1: "distinct cands" and c2: "set cands \<subseteq> {0..<length cs}"
    and c3: "min (min_candidates cfg) (length cs) \<le> length cands"
    unfolding cands_def using candidates_props[OF bm] by blast+
  have s1: "distinct short" and s2: "set short \<subseteq> set cands"
    and s3: "length short = min (shortlist_mult cfg * k) (length cands)"
    unfolding short_def using shortlist_props[OF c1] by blast+
  have "k \<le> shortlist_mult cfg * k" using mult by simp
  moreover have "k \<le> length cands" using c3 kT kN by simp
  ultimately have klen: "k \<le> length scored" using s3 by (simp add: scored_def)
  show "length (search_row cfg k base base_rows q q_row) = k"
    using klen by (simp add: res)
  have "inj_on (\<lambda>j. (sqdist q_row (base_rows ! j), j)) (set short)"
    by (rule inj_onI) simp
  then have d: "distinct scored" using s1 by (simp add: scored_def distinct_map)
  have "sorted (take k (sort scored))" by (simp add: sorted_wrt_take)
  moreover have "distinct (take k (sort scored))" using d by simp
  ultimately have "sorted_wrt (<) (take k (sort scored))" by (simp add: strict_sorted_iff)
  then have "sorted_wrt lex_less (take k (sort scored))"
    by (rule sorted_wrt_mono_rel[rotated]) (auto simp: lex_less_def less_prod_def)
  then show "sorted_wrt lex_less (search_row cfg k base base_rows q q_row)" by (simp add: res)
  fix d j assume "(d, j) \<in> set (search_row cfg k base base_rows q q_row)"
  then have "(d, j) \<in> set (sort scored)" unfolding res by (rule in_set_takeD)
  then have "(d, j) \<in> set scored" by simp
  then have "j \<in> set short" and dj: "d = sqdist q_row (base_rows ! j)" by (auto simp: scored_def)
  then have "j \<in> {0..<length cs}" using s2 c2 by blast
  then show "j < length cs \<and> d = sqdist q_row (base_rows ! j)" using dj by simp
qed

text \<open>
  The rows emitted for one query are pairwise different; asked for as many neighbours as
  the index has rows, the matcher ranks every row.
\<close>

lemma search_row_distinct:
  assumes bm: "buckets base = make_buckets cs"
  shows "distinct (map snd (search_row cfg k base base_rows q q_row))"
proof -
  define cands where "cands = candidates (min_candidates cfg) (buckets base) (primary_code q)"
  define short where "short = shortlist cfg k (hashed_desc base) (secondary_code q) cands"
  define scored where "scored = map (\<lambda>j. (sqdist q_row (base_rows ! j), j)) short"
  have res: "search_row cfg k base base_rows q q_row = take k (sort scored)"
    by (simp add: search_row_def cands_def short_def scored_def)
  have "distinct cands" unfolding cands_def using candidates_props(1)[OF bm] .
  then have "distinct short" unfolding short_def by (rule shortlist_props(1))
  moreover have "map snd scored = short" by (simp add: scored_def comp_def)
  ultimately have "distinct (map snd scored)" by simp
  moreover have "mset (map snd (sort scored)) = mset (map snd scored)" by simp
  ultimately have "distinct (map snd (sort scored))"
    using mset_eq_imp_distinct_iff by blast
  then have "distinct (take k (map snd (sort scored)))" by (rule distinct_take)
  then show ?thesis by (simp add: res take_map)
qed

lemma search_row_all_rows:
  assumes bm: "buckets base = make_buckets cs"
    and kT: "length cs \<le> min_candidates cfg" and mult: "1 \<le> shortlist_mult cfg"
  shows "set (map snd (search_row cfg (length cs) base base_rows q q_row)) = {0..<length cs}"
proof -
  let ?r = "search_row cfg (length cs) base base_rows q q_row"
  note P = search_row_props[OF bm kT mult order_refl,
      where base_rows = base_rows and q = q and q_row = q_row]
  have sub: "set (map snd ?r) \<subseteq> {0..<length cs}" using P(3) by fastforce
  have "card (set (map snd ?r)) = length (map snd ?r)"
    using search_row_distinct[OF bm] by (rule distinct_card)
  then have "card (set (map snd ?r)) = card {0..<length cs}" using P(1) by simp
  with sub show ?thesis by (simp add: card_subset_eq)
qed


subsection \<open>Batch search on the hasher of the description\<close>

lemma spec_search_results:
  fixes cfg :: config and draw :: "'g \<Rightarrow> 'a::linordered_field \<times> 'g"
  assumes built: "Build (cascade_hasher_ops cfg draw) m0 gen dataset nbRows dimension = (True, m, gen')"
    and q: "1 \<le> sint nbQuery"
    and k: "unat NN \<le> nat (sint nbRows)"
    and r: "\<not> reserves_throw plat nbQuery NN"
  shows "\<exists>res base cs.
     SearchNeighbours plat (cascade_hasher_ops cfg draw) m query nbQuery pvec_indices
         pvec_distances NN =
       Inr (True,
        pvec_indices @
          concat (map (\<lambda>i. map (\<lambda>(d, j). IndMatch i j) (res i)) [0..<nat (sint nbQuery)]),
        pvec_distances @ concat (map (\<lambda>i. map fst (res i)) [0..<nat (sint nbQuery)])) \<and>
     buckets base = make_buckets cs \<and> length cs = nat (sint nbRows) \<and>
     (\<forall>i < nat (sint nbQuery). \<exists>qh.
        res i = search_row cfg (unat NN) base
                  (map (row_at dataset (nat (sint dimension))) [0..<nat (sint nbRows)])
                  qh (row_at query (nat (sint dimension)) i))"
proof -
  let ?ops = "cascade_hasher_ops cfg draw"
  let ?mm = "\<lparr>data = dataset, rows = sint nbRows, cols = sint dimension\<rparr>"
  let ?mq = "\<lparr>data = query, rows = sint nbQuery, cols = sint dimension\<rparr>"
  let ?hq = "hashed_descriptions (cascade_hasher m) (rows_of ?mq) (zero_mean_descriptor m)"
  let ?cs = "map primary_code (Hash (cascade_hasher m) (rows_of ?mm) (zero_mean_descriptor m))"
  let ?res = "match_results cfg (unat NN) ?hq ?mq (hashed_base m) ?mm"
  note B = Build_True[OF built]
  have hb: "hashed_base m = hashed_descriptions (cascade_hasher m) (rows_of ?mm) (zero_mean_descriptor m)"
    using B(5) by (simp add: cascade_hasher_ops_def)
  have bm: "buckets (hashed_base m) = make_buckets ?cs"
    by (simp add: hb hashed_descriptions_simps)
  have len: "length ?cs = nat (sint nbRows)"
    by (simp add: Hash_def length_rows_of)
  have "SearchNeighbours plat ?ops m query nbQuery pvec_indices pvec_distances NN =
       Inr (True, Search cfg ?hq ?mq (hashed_base m) ?mm pvec_indices pvec_distances NN)"
    using SearchNeighbours_built[OF built, of plat query nbQuery pvec_indices pvec_distances NN]
      q k r
    by (simp add: cascade_hasher_ops_def)
  then have out: "SearchNeighbours plat ?ops m query nbQuery pvec_indices pvec_distances NN =
       Inr (True,
        pvec_indices @
          concat (map (\<lambda>i. map (\<lambda>(d, j). IndMatch i j) (?res i)) [0..<nat (sint nbQuery)]),
        pvec_distances @ concat (map (\<lambda>i. map fst (?res i)) [0..<nat (sint nbQuery)]))"
    by (simp add: Search_def Let_def hashed_descriptions_simps length_rows_of)
  have rows: "rows_of ?mm = map (row_at dataset (nat (sint dimension))) [0..<nat (sint nbRows)]"
    by (simp add: rows_of_def)
  have each: "\<exists>qh. ?res i = search_row cfg (unat NN) (hashed_base m)
                  (map (row_at dataset (nat (sint dimension))) [0..<nat (sint nbRows)])
                  qh (row_at query (nat (sint dimension)) i)"
    if "i < nat (sint nbQuery)" for i
  proof -
    have "rows_of ?mq ! i = row_at query (nat (sint dimension)) i"
      using that by (simp add: nth_rows_of)
    then have "?res i = search_row cfg (unat NN) (hashed_base m)
                  (map (row_at dataset (nat (sint dimension))) [0..<nat (sint nbRows)])
                  (hashed_desc ?hq ! i) (row_at query (nat (sint dimension)) i)"
      using rows by (simp add: match_results_def)
    then show ?thesis by blast
  qed
  show ?thesis using out bm len each by blast
qed

subsection \<open>The small instance\<close>

lemma sample_built:
  "Build sample_ops sample_matcher 0 sample_dataset 4 2 = (True, sample_index, 10)"
  by code_simp

lemma sparse_built:
  "Build sparse_ops sample_matcher 0 sample_dataset 4 2 = (True, sample_index, 10)"
  by code_simp

text \<open>
  Over \<open>2^31 - 1\<close> rows, a batch of \<open>2^31 - 1\<close> queries for \<open>2^31 - 1\<close> neighbours
  asks the output vectors for more elements than they can hold.
\<close>

lemma large_built:
  "Build sample_ops sample_matcher 0 [] 2147483647 0 =
     (True, large_index, snd (snd (Build sample_ops sample_matcher 0 [] 2147483647 0)))"
  unfolding large_index_def by (rule Build_succeeds) simp

lemma large_reserve: "reserves_throw sample_platform 2147483647 2147483647"
  by code_simp

text \<open>
  The nearest row to the query \<open>(1, 1)\<close> is row 0, at squared distance 2. The query
  \<open>(5, 5)\<close> is at the same distance of all four rows, which come in the order of their
  indices; rows 2 and 3 are at the same distance of \<open>(1, 1)\<close>.
\<close>

lemma sample_nearest:
  "SearchNeighbours sample_platform sample_ops sample_index [1, 1] 1 [] [] 1 =
     Inr (True, [IndMatch 0 0], [2])"
  by code_simp

lemma sample_ranking:
  "SearchNeighbours sample_platform sample_ops sample_index [1, 1, 5, 5] 2 [] [] 3 =
     Inr (True,
       [IndMatch 0 0, IndMatch 0 2, IndMatch 0 3, IndMatch 1 0, IndMatch 1 1, IndMatch 1 2],
       [2, 82, 82, 50, 50, 50])"
  by code_simp

section \<open>Properties\<close>

subsection \<open>Batch search returns k ranked neighbours per query\<close>

text \<open>
  C1, as stated, asks for exactly \<open>k\<close> results per query row on every built index and
  for every \<open>1 \<le> k \<le> N\<close>. With the hasher of the description, configured to start
  ranking as soon as it has one candidate, a search for two neighbours among four rows
  returns one. And on the index over \<open>2^31 - 1\<close> rows of dimension zero, a batch of
  \<open>2^31 - 1\<close> queries for \<open>k = 2^31 - 1\<close> neighbours returns nothing: reserving room for
  the results throws \<^verbatim>\<open>std::length_error\<close>.
\<close>

theorem search_batch_k_counterexample:
  "Build sparse_ops sample_matcher 0 sample_dataset 4 2 = (True, sample_index, 10) \<and>
   SearchNeighbours sample_platform sparse_ops sample_index [1, 1] 1 [] [] 2 =
     Inr (True, [IndMatch 0 0], [2]) \<and>
   fst (Build sample_ops sample_matcher 0 [] 2147483647 0) = True \<and>
   SearchNeighbours sample_platform sample_ops large_index [] 2147483647 [] [] 2147483647 =
     Inl length_error"
proof -
  have a: "SearchNeighbours sample_platform sparse_ops sample_index [1, 1] 1 [] [] 2 =
     Inr (True, [IndMatch 0 0], [2])"
    by code_simp
  have b: "fst (Build sample_ops sample_matcher 0 [] 2147483647 0) = True"
    using large_built by (metis fst_conv)
  have c: "SearchNeighbours sample_platform sample_ops large_index [] 2147483647 [] [] 2147483647 =
     Inl length_error"
    using SearchNeighbours_built[OF large_built, of sample_platform "[]" 2147483647 "[]" "[]"
        2147483647] large_reserve
    by simp
  show ?thesis using sparse_built a b c by blast
qed

text \<open>
  C1, amended. For an index built over \<open>N\<close> rows of a dataset, a non-empty batch of
  queries of the same dimension, and \<open>1 \<le> k \<le> N\<close> such that neither \<^verbatim>\<open>reserve\<close>
  throws, batch search succeeds and appends, query row after query row, exactly \<open>k\<close>
  results per query row: pairs of the true squared Euclidean distance between the query
  row and a dataset row, and the index of that dataset row, strictly ascending by distance
  with ties broken by the smaller row index. This holds for the hasher of the description
  when it requires at least \<open>k\<close> candidates before ranking and its shortlist holds at
  least \<open>k\<close> rows.
\<close>

theorem search_batch_k_sorted:
  fixes cfg :: config and draw :: "'g \<Rightarrow> 'a::linordered_field \<times> 'g"
  assumes built: "Build (cascade_hasher_ops cfg draw) m0 gen dataset nbRows dimension = (True, m, gen')"
    and dim: "0 \<le> sint dimension"
    and dims: "length dataset = nat (sint nbRows) * nat (sint dimension)"
              "length query = nat (sint nbQuery) * nat (sint dimension)"
    and q: "1 \<le> sint nbQuery"
    and k: "1 \<le> unat NN" "unat NN \<le> nat (sint nbRows)"
    and conf: "unat NN \<le> min_candidates cfg" "1 \<le> shortlist_mult cfg"
    and res: "\<not> reserves_throw plat nbQuery NN"
  shows "\<exists>res.
     SearchNeighbours plat (cascade_hasher_ops cfg draw) m query nbQuery pvec_indices
         pvec_distances NN =
       Inr (True,
        pvec_indices @
          concat (map (\<lambda>i. map (\<lambda>(d, j). IndMatch i j) (res i)) [0..<nat (sint nbQuery)]),
        pvec_distances @ concat (map (\<lambda>i. map fst (res i)) [0..<nat (sint nbQuery)])) \<and>
     (\<forall>i < nat (sint nbQuery).
        length (res i) = unat NN \<and> sorted_wrt lex_less (res i) \<and>
        (\<forall>(d, j) \<in> set (res i).
           j < nat (sint nbRows) \<and>
           d = sqdist (row_at query (nat (sint dimension)) i)
                 (row_at dataset (nat (sint dimension)) j)))"
proof -
  let ?rows = "map (row_at dataset (nat (sint dimension))) [0..<nat (sint nbRows)]"
  from spec_search_results[OF built q k(2) res, of query pvec_indices pvec_distances]
  obtain res base cs where
    out: "SearchNeighbours plat (cascade_hasher_ops cfg draw) m query nbQuery pvec_indices
         pvec_distances NN =
       Inr (True,
        pvec_indices @
          concat (map (\<lambda>i. map (\<lambda>(d, j). IndMatch i j) (res i)) [0..<nat (sint nbQuery)]),
        pvec_distances @ concat (map (\<lambda>i. map fst (res i)) [0..<nat (sint nbQuery)]))"
    and bm: "buckets base = make_buckets cs" and len: "length cs = nat (sint nbRows)"
    and each: "\<And>i. i < nat (sint nbQuery) \<Longrightarrow> \<exists>qh.
        res i = search_row cfg (unat NN) base ?rows qh (row_at query (nat (sint dimension)) i)"
    by blast
  have kN: "unat NN \<le> length cs" using k(2) len by simp
  have props: "length (res i) = unat NN \<and> sorted_wrt lex_less (res i) \<and>
        (\<forall>(d, j) \<in> set (res i).
           j < nat (sint nbRows) \<and>
           d = sqdist (row_at query (nat (sint dimension)) i)
                 (row_at dataset (nat (sint dimension)) j))" if i: "i < nat (sint nbQuery)" for i
  proof -
    from each[OF i] obtain qh where
      r: "res i = search_row cfg (unat NN) base ?rows qh (row_at query (nat (sint dimension)) i)"
      by blast
    note P = search_row_props[OF bm conf(1) conf(2) kN,
        where base_rows = ?rows and q = qh and q_row = "row_at query (nat (sint dimension)) i"]
    have "j < nat (sint nbRows) \<and>
          d = sqdist (row_at query (nat (sint dimension)) i) (row_at dataset (nat (sint dimension)) j)"
      if "(d, j) \<in> set (res i)" for d j
    proof -
      from that P(3)[of d j] have "j < length cs"
        and "d = sqdist (row_at query (nat (sint dimension)) i) (?rows ! j)"
        unfolding r by blast+
      then show ?thesis using len by simp
    qed
    then show ?thesis using P(1) P(2) unfolding r by blast
  qed
  show ?thesis using out props by blast
qed

theorem search_batch_k_sorted_witness:
  "SearchNeighbours sample_platform sample_ops sample_index [1, 1, 5, 5] 2 [] [] 3 =
     Inr (True,
       [IndMatch 0 0, IndMatch 0 2, IndMatch 0 3, IndMatch 1 0, IndMatch 1 1, IndMatch 1 2],
       [2, 82, 82, 50, 50, 50]) \<and>
   (\<exists>res.
     SearchNeighbours sample_platform sample_ops sample_index [1, 1, 5, 5] 2 [] [] 3 =
       Inr (True,
        [] @ concat (map (\<lambda>i. map (\<lambda>(d, j). IndMatch i j) (res i)) [0..<nat (sint (2 :: c_int))]),
        [] @ concat (map (\<lambda>i. map fst (res i)) [0..<nat (sint (2 :: c_int))])) \<and>
     (\<forall>i < nat (sint (2 :: c_int)).
        length (res i) = unat (3 :: size_t) \<and> sorted_wrt lex_less (res i) \<and>
        (\<forall>(d, j) \<in> set (res i).
           j < nat (sint (4 :: c_int)) \<and>
           d = sqdist (row_at [1, 1, 5, 5] (nat (sint (2 :: c_int))) i)
                 (row_at sample_dataset (nat (sint (2 :: c_int))) j))))"
proof -
  have b: "Build (cascade_hasher_ops sample_config sample_draw) sample_matcher 0 sample_dataset 4 2 =
      (True, sample_index, 10)"
    using sample_built by (simp add: sample_ops_def)
  have d1: "length sample_dataset = nat (sint (4 :: c_int)) * nat (sint (2 :: c_int))"
    by (simp add: sample_dataset_def)
  have d2: "length [1, 1, 5, 5 :: rat] = nat (sint (2 :: c_int)) * nat (sint (2 :: c_int))"
    by simp
  have c1: "unat (3 :: size_t) \<le> min_candidates sample_config"
    and c2: "1 \<le> shortlist_mult sample_config"
    by (simp_all add: sample_config_def)
  have r: "\<not> reserves_throw sample_platform 2 3" by code_simp
  have "0 \<le> sint (2 :: c_int)" and "1 \<le> sint (2 :: c_int)" and "1 \<le> unat (3 :: size_t)"
    and "unat (3 :: size_t) \<le> nat (sint (4 :: c_int))"
    by simp_all
  from search_batch_k_sorted[OF b this(1) d1 d2 this(2) this(3) this(4) c1 c2 r,
      where pvec_indices = "[]" and pvec_distances = "[]"]
  show ?thesis using sample_ranking unfolding sample_ops_def by simp
qed

subsection \<open>Which values of k are rejected\<close>

text \<open>
  C2, as stated, asks that \<open>k < 1\<close> be rejected and that \<open>k = N\<close> succeed and return all
  \<open>N\<close> rows. The only \<^verbatim>\<open>size_t\<close> below one is \<open>0\<close>, and it is accepted: the guard
  compares \<open>NN\<close> with the number of rows only. With \<open>k = N = 2^31 - 1\<close> and as many
  queries, the call throws \<^verbatim>\<open>std::length_error\<close>. And with the hasher of the
  description, configured to start ranking as soon as it has one candidate, a search for
  \<open>k = N = 4\<close> neighbours returns one row.
\<close>

theorem search_k_counterexample:
  "unat (0 :: size_t) < 1 \<and>
   (\<exists>out. SearchNeighbours sample_platform sample_ops sample_index [1, 1] 1 [] [] 0 =
      Inr (True, out)) \<and>
   unat (2147483647 :: size_t) = nat (sint (2147483647 :: c_int)) \<and>
   fst (Build sample_ops sample_matcher 0 [] 2147483647 0) = True \<and>
   SearchNeighbours sample_platform sample_ops large_index [] 2147483647 [] [] 2147483647 =
     Inl length_error \<and>
   unat (4 :: size_t) = nat (sint (4 :: c_int)) \<and>
   Build sparse_ops sample_matcher 0 sample_dataset 4 2 = (True, sample_index, 10) \<and>
   SearchNeighbours sample_platform sparse_ops sample_index [1, 1] 1 [] [] 4 =
     Inr (True, [IndMatch 0 0], [2])"
proof -
  have "SearchNeighbours sample_platform sample_ops sample_index [1, 1] 1 [] [] 0 =
      Inr (True, [], [])"
    by code_simp
  then have a: "\<exists>out. SearchNeighbours sample_platform sample_ops sample_index [1, 1] 1 [] [] 0 =
      Inr (True, out)"
    by blast
  have b: "fst (Build sample_ops sample_matcher 0 [] 2147483647 0) = True"
    using large_built by (metis fst_conv)
  have c: "SearchNeighbours sample_platform sample_ops large_index [] 2147483647 [] [] 2147483647 =
     Inl length_error"
    using SearchNeighbours_built[OF large_built, of sample_platform "[]" 2147483647 "[]" "[]"
        2147483647] large_reserve
    by simp
  have d: "SearchNeighbours sample_platform sparse_ops sample_index [1, 1] 1 [] [] 4 =
     Inr (True, [IndMatch 0 0], [2])"
    by code_simp
  have e: "unat (0 :: size_t) < 1" "unat (2147483647 :: size_t) = nat (sint (2147483647 :: c_int))"
    "unat (4 :: size_t) = nat (sint (4 :: c_int))"
    by simp_all
  show ?thesis using a b c d e sparse_built by blast
qed

text \<open>
  C2, amended. On an index built over \<open>N\<close> rows, batch search with \<open>k > N\<close> returns false
  and leaves the two output vectors as they were. With \<open>k \<le> N\<close> (\<open>k = 0\<close> and \<open>k = N\<close>
  included) and a non-empty batch it throws \<^verbatim>\<open>std::length_error\<close> when a
  \<^verbatim>\<open>reserve\<close> does, and otherwise returns true with the output vectors as the
  hasher's matcher leaves them when asked for \<open>k\<close> neighbours. With the hasher of the
  description, requiring at least \<open>N\<close> candidates before ranking and with a shortlist of
  at least \<open>k\<close> rows, a search for \<open>k = N\<close> neighbours that does not throw returns, for
  every query row, all \<open>N\<close> dataset rows ranked by distance.
\<close>

theorem search_k_bounds:
  fixes cfg :: config and draw :: "'g \<Rightarrow> 'a::linordered_field \<times> 'g"
  shows
  "(Build ops m0 gen dataset nbRows dimension = (True, m, gen') \<longrightarrow>
      (nat (sint nbRows) < unat NN \<longrightarrow>
         SearchNeighbours plat ops m query nbQuery pvec_indices pvec_distances NN =
           Inr (False, pvec_indices, pvec_distances)) \<and>
      (unat NN \<le> nat (sint nbRows) \<longrightarrow> 1 \<le> sint nbQuery \<longrightarrow>
         SearchNeighbours plat ops m query nbQuery pvec_indices pvec_distances NN =
           (if reserves_throw plat nbQuery NN then Inl length_error
            else
              Inr (True,
                Match_HashedDescriptions ops (cascade_hasher m)
                  (CreateHashedDescriptions ops (cascade_hasher m)
                     \<lparr>data = query, rows = sint nbQuery, cols = sint dimension\<rparr>
                     (zero_mean_descriptor m))
                  \<lparr>data = query, rows = sint nbQuery, cols = sint dimension\<rparr>
                  (hashed_base m)
                  \<lparr>data = dataset, rows = sint nbRows, cols = sint dimension\<rparr>
                  pvec_indices pvec_distances NN)))) \<and>
   (Build (cascade_hasher_ops cfg draw) n0 g rows_data nbRows dimension = (True, n, g') \<longrightarrow>
      unat NN = nat (sint nbRows) \<longrightarrow> 1 \<le> sint nbQuery \<longrightarrow>
      \<not> reserves_throw plat nbQuery NN \<longrightarrow>
      nat (sint nbRows) \<le> min_candidates cfg \<longrightarrow> 1 \<le> shortlist_mult cfg \<longrightarrow>
      (\<exists>res.
         SearchNeighbours plat (cascade_hasher_ops cfg draw) n query_data nbQuery indices
             distances NN =
           Inr (True,
            indices @
              concat (map (\<lambda>i. map (\<lambda>(d, j). IndMatch i j) (res i)) [0..<nat (sint nbQuery)]),
            distances @ concat (map (\<lambda>i. map fst (res i)) [0..<nat (sint nbQuery)])) \<and>
         (\<forall>i < nat (sint nbQuery).
            set (map snd (res i)) = {0..<nat (sint nbRows)} \<and>
            length (res i) = nat (sint nbRows) \<and> sorted_wrt lex_less (res i) \<and>
            (\<forall>(d, j) \<in> set (res i).
               d = sqdist (row_at query_data (nat (sint dimension)) i)
                     (row_at rows_data (nat (sint dimension)) j)))))"
proof (intro conjI impI)
  assume b: "Build ops m0 gen dataset nbRows dimension = (True, m, gen')"
    and "nat (sint nbRows) < unat NN"
  then show "SearchNeighbours plat ops m query nbQuery pvec_indices pvec_distances NN =
           Inr (False, pvec_indices, pvec_distances)"
    by (simp add: SearchNeighbours_built[OF b])
next
  assume b: "Build ops m0 gen dataset nbRows dimension = (True, m, gen')"
    and "unat NN \<le> nat (sint nbRows)" and "1 \<le> sint nbQuery"
  then show "SearchNeighbours plat ops m query nbQuery pvec_indices pvec_distances NN =
           (if reserves_throw plat nbQuery NN then Inl length_error
            else
              Inr (True,
                Match_HashedDescriptions ops (cascade_hasher m)
                  (CreateHashedDescriptions ops (cascade_hasher m)
                     \<lparr>data = query, rows = sint nbQuery, cols = sint dimension\<rparr>
                     (zero_mean_descriptor m))
                  \<lparr>data = query, rows = sint nbQuery, cols = sint dimension\<rparr>
                  (hashed_base m)
                  \<lparr>data = dataset, rows = sint nbRows, cols = sint dimension\<rparr>
                  pvec_indices pvec_distances NN))"
    by (simp add: SearchNeighbours_built[OF b])
next
  let ?rows = "map (row_at rows_data (nat (sint dimension))) [0..<nat (sint nbRows)]"
  assume built: "Build (cascade_hasher_ops cfg draw) n0 g rows_data nbRows dimension = (True, n, g')"
    and kN: "unat NN = nat (sint nbRows)" and q: "1 \<le> sint nbQuery"
    and r: "\<not> reserves_throw plat nbQuery NN"
    and T: "nat (sint nbRows) \<le> min_candidates cfg" and mult: "1 \<le> shortlist_mult cfg"
  have k: "unat NN \<le> nat (sint nbRows)" using kN by simp
  from spec_search_results[OF built q k r, of query_data indices distances]
  obtain res base cs where
    out: "SearchNeighbours plat (cascade_hasher_ops cfg draw) n query_data nbQuery indices
             distances NN =
       Inr (True,
        indices @
          concat (map (\<lambda>i. map (\<lambda>(d, j). IndMatch i j) (res i)) [0..<nat (sint nbQuery)]),
        distances @ concat (map (\<lambda>i. map fst (res i)) [0..<nat (sint nbQuery)]))"
    and bm: "buckets base = make_buckets cs" and len: "length cs = nat (sint nbRows)"
    and each: "\<And>i. i < nat (sint nbQuery) \<Longrightarrow> \<exists>qh.
        res i = search_row cfg (unat NN) base ?rows qh
                  (row_at query_data (nat (sint dimension)) i)"
    by blast
  have T': "length cs \<le> min_candidates cfg" using T len by simp
  have props: "set (map snd (res i)) = {0..<nat (sint nbRows)} \<and>
            length (res i) = nat (sint nbRows) \<and> sorted_wrt lex_less (res i) \<and>
            (\<forall>(d, j) \<in> set (res i).
               d = sqdist (row_at query_data (nat (sint dimension)) i)
                     (row_at rows_data (nat (sint dimension)) j))"
    if i: "i < nat (sint nbQuery)" for i
  proof -
    from each[OF i] obtain qh where
      "res i = search_row cfg (unat NN) base ?rows qh (row_at query_data (nat (sint dimension)) i)"
      by blast
    then have r: "res i = search_row cfg (length cs) base ?rows qh
        (row_at query_data (nat (sint dimension)) i)"
      using kN len by simp
    note P = search_row_props[OF bm T' mult order_refl,
        where base_rows = ?rows and q = qh and q_row = "row_at query_data (nat (sint dimension)) i"]
    note A = search_row_all_rows[OF bm T' mult,
        where base_rows = ?rows and q = qh and q_row = "row_at query_data (nat (sint dimension)) i"]
    have "d = sqdist (row_at query_data (nat (sint dimension)) i)
              (row_at rows_data (nat (sint dimension)) j)"
      if "(d, j) \<in> set (res i)" for d j
    proof -
      from that P(3)[of d j] have "j < length cs"
        and "d = sqdist (row_at query_data (nat (sint dimension)) i) (?rows ! j)"
        unfolding r by blast+
      then show ?thesis using len by simp
    qed
    then show ?thesis using P(1) P(2) A len unfolding r by auto
  qed
  show "\<exists>res.
         SearchNeighbours plat (cascade_hasher_ops cfg draw) n query_data nbQuery indices
             distances NN =
           Inr (True,
            indices @
              concat (map (\<lambda>i. map (\<lambda>(d, j). IndMatch i j) (res i)) [0..<nat (sint nbQuery)]),
            distances @ concat (map (\<lambda>i. map fst (res i)) [0..<nat (sint nbQuery)])) \<and>
         (\<forall>i < nat (sint nbQuery).
            set (map snd (res i)) = {0..<nat (sint nbRows)} \<and>
            length (res i) = nat (sint nbRows) \<and> sorted_wrt lex_less (res i) \<and>
            (\<forall>(d, j) \<in> set (res i).
               d = sqdist (row_at query_data (nat (sint dimension)) i)
                     (row_at rows_data (nat (sint dimension)) j)))"
    using out props by blast
qed

theorem search_k_bounds_witness:
  "SearchNeighbours sample_platform sample_ops sample_index [1, 1] 1 [] [] 5 =
     Inr (False, [], []) \<and>
   SearchNeighbours sample_platform sample_ops sample_index [1, 1] 1 [] [] 0 =
     Inr (True,
       Match_HashedDescriptions sample_ops (cascade_hasher sample_index)
         (CreateHashedDescriptions sample_ops (cascade_hasher sample_index)
            \<lparr>data = [1, 1], rows = 1, cols = 2\<rparr> (zero_mean_descriptor sample_index))
         \<lparr>data = [1, 1], rows = 1, cols = 2\<rparr> (hashed_base sample_index)
         \<lparr>data = sample_dataset, rows = 4, cols = 2\<rparr> [] [] 0) \<and>
   (\<exists>res.
      SearchNeighbours sample_platform sample_ops sample_index [1, 1] 1 [] [] 4 =
        Inr (True,
         [] @ concat (map (\<lambda>i. map (\<lambda>(d, j). IndMatch i j) (res i)) [0..<nat (sint (1 :: c_int))]),
         [] @ concat (map (\<lambda>i. map fst (res i)) [0..<nat (sint (1 :: c_int))])) \<and>
      (\<forall>i < nat (sint (1 :: c_int)).
         set (map snd (res i)) = {0..<nat (sint (4 :: c_int))} \<and>
         length (res i) = nat (sint (4 :: c_int)) \<and> sorted_wrt lex_less (res i) \<and>
         (\<forall>(d, j) \<in> set (res i).
            d = sqdist (row_at [1, 1] (nat (sint (2 :: c_int))) i)
                  (row_at sample_dataset (nat (sint (2 :: c_int))) j))))"
proof -
  have b: "Build (cascade_hasher_ops sample_config sample_draw) sample_matcher 0 sample_dataset 4 2 =
      (True, sample_index, 10)"
    using sample_built by (simp add: sample_ops_def)
  have r0: "\<not> reserves_throw sample_platform 1 0" and r4: "\<not> reserves_throw sample_platform 1 4"
    by code_simp+
  have c: "nat (sint (4 :: c_int)) \<le> min_candidates sample_config"
    "1 \<le> shortlist_mult sample_config"
    by (simp_all add: sample_config_def)
  note T = search_k_bounds[where plat = sample_platform and nbQuery = 1 and nbRows = 4
      and dimension = 2 and ops = sample_ops and ?m0.0 = sample_matcher and gen = 0
      and dataset = sample_dataset and m = sample_index and gen' = 10
      and query = "[1, 1]" and pvec_indices = "[]" and pvec_distances = "[]"
      and cfg = sample_config and draw = sample_draw and ?n0.0 = sample_matcher and g = 0
      and rows_data = sample_dataset and n = sample_index and g' = 10
      and query_data = "[1, 1]" and indices = "[]" and distances = "[]"]
  have p1: "SearchNeighbours sample_platform sample_ops sample_index [1, 1] 1 [] [] 5 =
     Inr (False, [], [])"
    using T[of 5, THEN conjunct1] sample_built by simp
  have p2: "SearchNeighbours sample_platform sample_ops sample_index [1, 1] 1 [] [] 0 =
     Inr (True,
       Match_HashedDescriptions sample_ops (cascade_hasher sample_index)
         (CreateHashedDescriptions sample_ops (cascade_hasher sample_index)
            \<lparr>data = [1, 1], rows = 1, cols = 2\<rparr> (zero_mean_descriptor sample_index))
         \<lparr>data = [1, 1], rows = 1, cols = 2\<rparr> (hashed_base sample_index)
         \<lparr>data = sample_dataset, rows = 4, cols = 2\<rparr> [] [] 0)"
    using T[of 0, THEN conjunct1] sample_built r0 by simp
  have "unat (4 :: size_t) = nat (sint (4 :: c_int))" and "1 \<le> sint (1 :: c_int)" by simp_all
  from T[of 4, THEN conjunct2, rule_format, OF b this r4 c]
  have p3: "\<exists>res.
      SearchNeighbours sample_platform sample_ops sample_index [1, 1] 1 [] [] 4 =
        Inr (True,
         [] @ concat (map (\<lambda>i. map (\<lambda>(d, j). IndMatch i j) (res i)) [0..<nat (sint (1 :: c_int))]),
         [] @ concat (map (\<lambda>i. map fst (res i)) [0..<nat (sint (1 :: c_int))])) \<and>
      (\<forall>i < nat (sint (1 :: c_int)).
         set (map snd (res i)) = {0..<nat (sint (4 :: c_int))} \<and>
         length (res i) = nat (sint (4 :: c_int)) \<and> sorted_wrt lex_less (res i) \<and>
         (\<forall>(d, j) \<in> set (res i).
            d = sqdist (row_at [1, 1] (nat (sint (2 :: c_int))) i)
                  (row_at sample_dataset (nat (sint (2 :: c_int))) j)))"
    unfolding sample_ops_def .
  show ?thesis using p1 p2 p3 by blast
qed

subsection \<open>The length of the query vectors is not checked\<close>

text \<open>
  C3, as stated, asks that query vectors of a length other than the dimension of the
  index be rejected. The query is a bare pointer: a batch of one vector of three scalars,
  searched in the index of dimension two, is accepted.
\<close>

theorem search_longer_query_counterexample:
  "length [1, 1, 7 :: rat] \<noteq> nat (sint (1 :: c_int)) * nat (sint (2 :: c_int)) \<and>
   (\<exists>out. SearchNeighbours sample_platform sample_ops sample_index [1, 1, 7] 1 [] [] 1 =
      Inr (True, out))"
proof -
  have "SearchNeighbours sample_platform sample_ops sample_index [1, 1, 7] 1 [] [] 1 =
      Inr (True, [IndMatch 0 0], [2])"
    by code_simp
  then show ?thesis by simp
qed

text \<open>
  C3, amended. On a built index of dimension \<open>D\<close>, the outcome of batch search is decided
  by \<open>k\<close>, the number of rows of the index and the number of query rows, never by the
  query buffer: it returns false exactly when \<open>k\<close> exceeds the number of rows or the batch
  is empty, throws \<^verbatim>\<open>std::length_error\<close> exactly when it is not so rejected and a
  \<^verbatim>\<open>reserve\<close> throws, and otherwise returns true, having read the buffer as
  \<open>nbQuery\<close> rows of \<open>D\<close> scalars each, the dimension of the index.
\<close>

theorem search_ignores_query_length:
  assumes "Build ops m0 gen dataset nbRows dimension = (True, m, gen')"
  shows "(SearchNeighbours plat ops m query nbQuery pvec_indices pvec_distances NN =
            Inr (False, pvec_indices, pvec_distances) \<longleftrightarrow>
          nat (sint nbRows) < unat NN \<or> sint nbQuery < 1) \<and>
         (SearchNeighbours plat ops m query nbQuery pvec_indices pvec_distances NN =
            Inl length_error \<longleftrightarrow>
          unat NN \<le> nat (sint nbRows) \<and> 1 \<le> sint nbQuery \<and> reserves_throw plat nbQuery NN) \<and>
         (unat NN \<le> nat (sint nbRows) \<and> 1 \<le> sint nbQuery \<and> \<not> reserves_throw plat nbQuery NN \<longrightarrow>
            SearchNeighbours plat ops m query nbQuery pvec_indices pvec_distances NN =
              Inr (True,
                Match_HashedDescriptions ops (cascade_hasher m)
                  (CreateHashedDescriptions ops (cascade_hasher m)
                     \<lparr>data = query, rows = sint nbQuery, cols = sint dimension\<rparr>
                     (zero_mean_descriptor m))
                  \<lparr>data = query, rows = sint nbQuery, cols = sint dimension\<rparr>
                  (hashed_base m)
                  \<lparr>data = dataset, rows = sint nbRows, cols = sint dimension\<rparr>
                  pvec_indices pvec_distances NN))"
proof (cases "nat (sint nbRows) < unat NN \<or> sint nbQuery < 1")
  case True
  then have "SearchNeighbours plat ops m query nbQuery pvec_indices pvec_distances NN =
      Inr (False, pvec_indices, pvec_distances)"
    by (simp add: SearchNeighbours_built[OF assms])
  then show ?thesis using True by auto
next
  case False
  show ?thesis
  proof (cases "reserves_throw plat nbQuery NN")
    case True
    then have "SearchNeighbours plat ops m query nbQuery pvec_indices pvec_distances NN =
        Inl length_error"
      using False by (simp add: SearchNeighbours_built[OF assms])
    then show ?thesis using True False by auto
  next
    case nothrow: False
    then have "SearchNeighbours plat ops m query nbQuery pvec_indices pvec_distances NN =
              Inr (True,
                Match_HashedDescriptions ops (cascade_hasher m)
                  (CreateHashedDescriptions ops (cascade_hasher m)
                     \<lparr>data = query, rows = sint nbQuery, cols = sint dimension\<rparr>
                     (zero_mean_descriptor m))
                  \<lparr>data = query, rows = sint nbQuery, cols = sint dimension\<rparr>
                  (hashed_base m)
                  \<lparr>data = dataset, rows = sint nbRows, cols = sint dimension\<rparr>
                  pvec_indices pvec_distances NN)"
      using False by (simp add: SearchNeighbours_built[OF assms])
    then show ?thesis using nothrow False by auto
  qed
qed

theorem search_ignores_query_length_witness:
  "SearchNeighbours sample_platform sample_ops sample_index [1, 1, 7] 1 [] [] 1 =
     Inr (True,
       Match_HashedDescriptions sample_ops (cascade_hasher sample_index)
         (CreateHashedDescriptions sample_ops (cascade_hasher sample_index)
            \<lparr>data = [1, 1, 7], rows = 1, cols = 2\<rparr> (zero_mean_descriptor sample_index))
         \<lparr>data = [1, 1, 7], rows = 1, cols = 2\<rparr> (hashed_base sample_index)
         \<lparr>data = sample_dataset, rows = 4, cols = 2\<rparr> [] [] 1) \<and>
   SearchNeighbours sample_platform sample_ops sample_index [1, 1, 7] 1 [] [] 1 \<noteq>
     Inr (False, [], []) \<and>
   SearchNeighbours sample_platform sample_ops sample_index [1, 1, 7] 1 [] [] 1 \<noteq>
     Inl length_error"
proof -
  have r: "\<not> reserves_throw sample_platform 1 1" by code_simp
  show ?thesis
    using search_ignores_query_length[OF sample_built, where plat = sample_platform and NN = 1
        and query = "[1, 1, 7]" and nbQuery = 1 and pvec_indices = "[]" and pvec_distances = "[]"]
      r
    by simp
qed

subsection \<open>Failures of batch search are not told apart\<close>

text \<open>
  C4, as stated, asks that a violated precondition be reported by an error distinct from
  the one of an index that is not built. The call returns a boolean: with \<open>k\<close> too large,
  or with an empty batch, a built index answers exactly as an unbuilt one.
\<close>

theorem search_failures_alike_counterexample:
  "SearchNeighbours sample_platform sample_ops sample_index [1, 1] 1 [] [] 5 =
     SearchNeighbours sample_platform sample_ops sample_matcher [1, 1] 1 [] [] 5 \<and>
   SearchNeighbours sample_platform sample_ops sample_index [] 0 [] [] 1 =
     SearchNeighbours sample_platform sample_ops sample_matcher [] 0 [] [] 1"
  by code_simp

text \<open>
  C4, amended. On a built index, batch search with \<open>k\<close> above the number of rows or with
  an empty query batch returns false and leaves the two output vectors untouched (no
  partial results); this is the very result of a search on a matcher whose index is not
  built.
\<close>

theorem search_failure_value:
  assumes "Build ops m0 gen dataset nbRows dimension = (True, m, gen')"
    and "nat (sint nbRows) < unat NN \<or> sint nbQuery < 1"
    and "memMapping unbuilt = None"
  shows "SearchNeighbours plat ops m query nbQuery pvec_indices pvec_distances NN =
          Inr (False, pvec_indices, pvec_distances) \<and>
         SearchNeighbours plat ops unbuilt query nbQuery pvec_indices pvec_distances NN =
          Inr (False, pvec_indices, pvec_distances)"
proof -
  have "SearchNeighbours plat ops m query nbQuery pvec_indices pvec_distances NN =
          Inr (False, pvec_indices, pvec_distances)"
    using assms(2) by (simp add: SearchNeighbours_built[OF assms(1)])
  moreover have "SearchNeighbours plat ops unbuilt query nbQuery pvec_indices pvec_distances NN =
          Inr (False, pvec_indices, pvec_distances)"
    using assms(3) by (intro SearchNeighbours_rejects) simp
  ultimately show ?thesis by simp
qed

theorem search_failure_value_witness:
  "SearchNeighbours sample_platform sample_ops sample_index [1, 1] 1 [] [] 5 =
     Inr (False, [], []) \<and>
   SearchNeighbours sample_platform sample_ops sample_matcher [1, 1] 1 [] [] 5 =
     Inr (False, [], []) \<and>
   SearchNeighbours sample_platform sample_ops sample_index [] 0 [IndMatch 0 0] [2] 1 =
     Inr (False, [IndMatch 0 0], [2])"
proof -
  have u: "memMapping sample_matcher = None"
    by (simp add: sample_matcher_def ArrayMatcher_cascadeHashing_def)
  have a: "nat (sint (4 :: c_int)) < unat (5 :: size_t) \<or> sint (1 :: c_int) < 1" by simp
  have b: "nat (sint (4 :: c_int)) < unat (1 :: size_t) \<or> sint (0 :: c_int) < 1" by simp
  show ?thesis
    using search_failure_value[OF sample_built a u, of sample_platform "[1, 1]" "[]" "[]"]
      search_failure_value[OF sample_built b u, of sample_platform "[]" "[IndMatch 0 0]" "[2]"]
    by simp
qed

subsection \<open>Single-query search\<close>

text \<open>
  C5, as stated, asks that single-query search fail with a rejection of its own. It
  returns a boolean: its flag is the one batch search returns on an unbuilt index or on an
  empty batch, and the one \<open>Build\<close> returns on an empty dataset.
\<close>

theorem single_query_flag_counterexample:
  "fst (SearchNeighbour sample_log sample_index [1, 1] 0 (0 :: rat) []) = False \<and>
   SearchNeighbours sample_platform sample_ops sample_matcher [1, 1] 1 [] [] 1 =
     Inr (fst (SearchNeighbour sample_log sample_index [1, 1] 0 (0 :: rat) []), [], []) \<and>
   SearchNeighbours sample_platform sample_ops sample_index [] 0 [] [] 1 =
     Inr (fst (SearchNeighbour sample_log sample_index [1, 1] 0 (0 :: rat) []), [], []) \<and>
   fst (Build sample_ops sample_matcher 0 [] 0 2) =
     fst (SearchNeighbour sample_log sample_index [1, 1] 0 (0 :: rat) [])"
proof -
  have s: "fst (SearchNeighbour sample_log sample_index [1, 1] 0 (0 :: rat) []) = False"
    by (simp add: SearchNeighbour_def)
  have u: "memMapping sample_matcher = None"
    by (simp add: sample_matcher_def ArrayMatcher_cascadeHashing_def)
  have a: "SearchNeighbours sample_platform sample_ops sample_matcher [1, 1] 1 [] [] 1 =
     Inr (False, [], [])"
    using u by (intro SearchNeighbours_rejects) simp
  have b: "SearchNeighbours sample_platform sample_ops sample_index [] 0 [] [] 1 =
     Inr (False, [], [])"
    by (simp add: SearchNeighbours_built[OF sample_built])
  have c: "fst (Build sample_ops sample_matcher 0 [] 0 2) = False"
    by (simp add: Build_def)
  show ?thesis using s a b c by simp
qed

text \<open>
  C5, amended. Whatever the matcher (built or not) and the query, single-query search
  fails: it returns false, logs one warning, and leaves the neighbour index and the distance
  it was given untouched; it calls nothing of the hasher. The value it returns is not of
  its own: it is the flag of a batch search on an unbuilt index and of a \<open>Build\<close> without
  rows.
\<close>

theorem single_query_fails:
  "SearchNeighbour LOG_WARNING m query indice distance logged =
     (False, indice, distance, LOG_WARNING single_query_warning logged) \<and>
   (memMapping unbuilt = None \<longrightarrow>
      SearchNeighbours plat ops unbuilt queries nbQuery pvec_indices pvec_distances NN =
        Inr (fst (SearchNeighbour LOG_WARNING m query indice distance logged),
             pvec_indices, pvec_distances)) \<and>
   (sint nbRows < 1 \<longrightarrow>
      fst (Build ops m0 gen dataset nbRows dimension) =
        fst (SearchNeighbour LOG_WARNING m query indice distance logged))"
proof (intro conjI impI)
  show "SearchNeighbour LOG_WARNING m query indice distance logged =
     (False, indice, distance, LOG_WARNING single_query_warning logged)"
    by (simp add: SearchNeighbour_def)
next
  assume "memMapping unbuilt = None"
  then have "SearchNeighbours plat ops unbuilt queries nbQuery pvec_indices pvec_distances NN =
      Inr (False, pvec_indices, pvec_distances)"
    by (intro SearchNeighbours_rejects) simp
  then show "SearchNeighbours plat ops unbuilt queries nbQuery pvec_indices pvec_distances NN =
        Inr (fst (SearchNeighbour LOG_WARNING m query indice distance logged),
             pvec_indices, pvec_distances)"
    by (simp add: SearchNeighbour_def)
next
  assume "sint nbRows < 1"
  then show "fst (Build ops m0 gen dataset nbRows dimension) =
        fst (SearchNeighbour LOG_WARNING m query indice distance logged)"
    by (simp add: Build_def SearchNeighbour_def)
qed

theorem single_query_fails_witness:
  "SearchNeighbour sample_log sample_index [1, 1] 0 (0 :: rat) [] =
     (False, 0, 0, [single_query_warning]) \<and>
   SearchNeighbours sample_platform sample_ops sample_matcher [1, 1] 1 [] [] 1 =
     Inr (False, [], []) \<and>
   fst (Build sample_ops sample_matcher 0 [] 0 2) = False"
proof -
  have u: "memMapping sample_matcher = None"
    by (simp add: sample_matcher_def ArrayMatcher_cascadeHashing_def)
  have z: "sint (0 :: c_int) < 1" by simp
  show ?thesis
    using single_query_fails[where LOG_WARNING = sample_log and m = sample_index
        and query = "[1, 1]" and indice = 0 and distance = "0 :: rat" and logged = "[]"
        and unbuilt = sample_matcher and plat = sample_platform and ops = sample_ops
        and queries = "[1, 1]" and nbQuery = 1 and pvec_indices = "[]" and pvec_distances = "[]"
        and NN = 1 and nbRows = 0 and ?m0.0 = sample_matcher and gen = 0 and dataset = "[]"
        and dimension = 2] u z
    by (simp add: sample_log_def)
qed

subsection \<open>Batch search needs a built index\<close>

text \<open>
  C6. Batch search fails on a freshly constructed matcher, and on the matcher any failed
  \<open>Build\<close> leaves behind. \<open>Build\<close> fails whenever it is given less than one row, whatever
  the matcher it is called on: a failed rebuild of a built index discards the index.
\<close>

theorem search_fails_unless_built:
  "SearchNeighbours plat ops (ArrayMatcher_cascadeHashing h0 hd0 z0) query nbQuery pvec_indices
       pvec_distances NN = Inr (False, pvec_indices, pvec_distances) \<and>
   (sint nbRows < 1 \<longrightarrow>
      Build ops m0 gen dataset nbRows dimension = (False, m0\<lparr>memMapping := None\<rparr>, gen)) \<and>
   (Build ops m0 gen dataset nbRows dimension = (False, m, gen') \<longrightarrow>
      SearchNeighbours plat ops m query nbQuery pvec_indices pvec_distances NN =
        Inr (False, pvec_indices, pvec_distances))"
proof (intro conjI impI)
  show "SearchNeighbours plat ops (ArrayMatcher_cascadeHashing h0 hd0 z0) query nbQuery
       pvec_indices pvec_distances NN = Inr (False, pvec_indices, pvec_distances)"
    by (rule SearchNeighbours_rejects) (simp add: ArrayMatcher_cascadeHashing_def)
next
  assume "sint nbRows < 1"
  then show "Build ops m0 gen dataset nbRows dimension = (False, m0\<lparr>memMapping := None\<rparr>, gen)"
    by (simp add: Build_False)
next
  assume "Build ops m0 gen dataset nbRows dimension = (False, m, gen')"
  then have "memMapping m = None" by (simp add: Build_False)
  then show "SearchNeighbours plat ops m query nbQuery pvec_indices pvec_distances NN =
        Inr (False, pvec_indices, pvec_distances)"
    by (simp add: SearchNeighbours_rejects)
qed

theorem search_fails_unless_built_witness:
  "SearchNeighbours sample_platform sample_ops sample_matcher [1, 1] 1 [] [] 1 =
     Inr (False, [], []) \<and>
   Build sample_ops sample_matcher 0 sample_dataset 4 2 = (True, sample_index, 10) \<and>
   Build sample_ops sample_index 10 [] 0 2 = (False, sample_index\<lparr>memMapping := None\<rparr>, 10) \<and>
   SearchNeighbours sample_platform sample_ops (sample_index\<lparr>memMapping := None\<rparr>) [1, 1] 1 [] [] 1 =
     Inr (False, [], [])"
proof -
  have "sint (0 :: c_int) < 1" by simp
  then show ?thesis
    using search_fails_unless_built[where ops = sample_ops and plat = sample_platform
      and ?h0.0 = "\<lparr>primary_projection = [], secondary_projection = []\<rparr>"
      and ?hd0.0 = "\<lparr>hashed_desc = [], buckets = []\<rparr>" and ?z0.0 = "[]"
      and query = "[1, 1]" and nbQuery = 1 and pvec_indices = "[]" and pvec_distances = "[]"
      and NN = 1 and ?m0.0 = sample_index and gen = 10 and dataset = "[]" and nbRows = 0
      and dimension = 2 and m = "sample_index\<lparr>memMapping := None\<rparr>" and gen' = 10]
      sample_built
    by (simp add: sample_matcher_def)
qed

subsection \<open>When Build fails\<close>

text \<open>
  C7, as stated, asks that \<open>Build\<close> fail when the dimension is \<open>\<le> 0\<close>. \<open>Build\<close> looks at
  the number of rows only: one row of dimension zero is accepted.
\<close>

theorem Build_dimension_zero_counterexample:
  "sint (0 :: c_int) \<le> 0 \<and> fst (Build sample_ops sample_matcher 0 [] 1 0) = True"
  by (simp add: Build_def Let_def split: prod.splits)

text \<open>
  C7, amended. \<open>Build\<close> given less than one row returns false, resets the index and
  leaves the generator as it was, whatever the dimension. Given at least one row and a
  dimension \<open>\<ge> 0\<close> (zero included) it returns true.
\<close>

theorem Build_fails_iff_no_rows:
  "(sint nbRows < 1 \<longrightarrow>
      Build ops m gen dataset nbRows dimension = (False, m\<lparr>memMapping := None\<rparr>, gen)) \<and>
   (1 \<le> sint nbRows \<longrightarrow> 0 \<le> sint dimension \<longrightarrow>
      fst (Build ops m gen dataset nbRows dimension) = True)"
  by (simp add: Build_def Let_def split: prod.splits)

theorem Build_fails_iff_no_rows_witness:
  "Build sample_ops sample_matcher 0 sample_dataset 0 2 =
     (False, sample_matcher\<lparr>memMapping := None\<rparr>, 0) \<and>
   fst (Build sample_ops sample_matcher 0 sample_dataset 4 2) = True \<and>
   fst (Build sample_ops sample_matcher 0 [] 1 0) = True"
  using Build_fails_iff_no_rows[of 0 sample_ops sample_matcher 0 sample_dataset 2]
    Build_fails_iff_no_rows[of 4 sample_ops sample_matcher 0 sample_dataset 2]
    Build_fails_iff_no_rows[of 1 sample_ops sample_matcher 0 "[]" 0]
  by simp

subsection \<open>The zero-mean vector\<close>

text \<open>
  C9. After a successful \<open>Build\<close> the matcher holds the zero-mean vector computed from the
  dataset, and the dataset was hashed with it. A batch search on the matcher either
  returns false, or throws \<^verbatim>\<open>std::length_error\<close>, both before any hashing, or
  hashes its queries with this very vector. Batch search writes no member, so this holds
  for every search after the \<open>Build\<close>. The hasher of the description computes the vector
  as the mean of the rows it is given, and hashes a row by subtracting the vector it is
  given and projecting the difference.
\<close>

theorem zero_mean_reused:
  fixes cfg :: config and draw :: "'g \<Rightarrow> 'a::linordered_field \<times> 'g"
  assumes "Build ops m0 gen dataset nbRows dimension = (True, m, gen')"
  shows "zero_mean_descriptor m =
           GetZeroMeanDescriptor ops \<lparr>data = dataset, rows = sint nbRows, cols = sint dimension\<rparr> \<and>
         hashed_base m =
           CreateHashedDescriptions ops (cascade_hasher m)
             \<lparr>data = dataset, rows = sint nbRows, cols = sint dimension\<rparr>
             (GetZeroMeanDescriptor ops
                \<lparr>data = dataset, rows = sint nbRows, cols = sint dimension\<rparr>) \<and>
         SearchNeighbours plat ops m query nbQuery pvec_indices pvec_distances NN =
           (if nat (sint nbRows) < unat NN \<or> sint nbQuery < 1
            then Inr (False, pvec_indices, pvec_distances)
            else if reserves_throw plat nbQuery NN then Inl length_error
            else
              Inr (True,
                Match_HashedDescriptions ops (cascade_hasher m)
                  (CreateHashedDescriptions ops (cascade_hasher m)
                     \<lparr>data = query, rows = sint nbQuery, cols = sint dimension\<rparr>
                     (GetZeroMeanDescriptor ops
                        \<lparr>data = dataset, rows = sint nbRows, cols = sint dimension\<rparr>))
                  \<lparr>data = query, rows = sint nbQuery, cols = sint dimension\<rparr>
                  (hashed_base m)
                  \<lparr>data = dataset, rows = sint nbRows, cols = sint dimension\<rparr>
                  pvec_indices pvec_distances NN)) \<and>
         GetZeroMeanDescriptor (cascade_hasher_ops cfg draw) v = ZeroMean (rows_of v) \<and>
         hashed_desc (CreateHashedDescriptions (cascade_hasher_ops cfg draw) model v zero_mean) =
           map (\<lambda>row.
                 \<lparr>zero_centered = map2 (-) row zero_mean,
                  primary_code = binarize (primary_projection model) (map2 (-) row zero_mean),
                  secondary_code = binarize (secondary_projection model) (map2 (-) row zero_mean)\<rparr>)
             (rows_of v)"
proof -
  let ?mm = "\<lparr>data = dataset, rows = sint nbRows, cols = sint dimension\<rparr>"
  note B = Build_True[OF assms]
  have zm: "zero_mean_descriptor m = GetZeroMeanDescriptor ops ?mm" by (rule B(4))
  have hb: "hashed_base m = CreateHashedDescriptions ops (cascade_hasher m) ?mm
      (GetZeroMeanDescriptor ops ?mm)"
    using B(5) zm by simp
  have s: "SearchNeighbours plat ops m query nbQuery pvec_indices pvec_distances NN =
           (if nat (sint nbRows) < unat NN \<or> sint nbQuery < 1
            then Inr (False, pvec_indices, pvec_distances)
            else if reserves_throw plat nbQuery NN then Inl length_error
            else
              Inr (True,
                Match_HashedDescriptions ops (cascade_hasher m)
                  (CreateHashedDescriptions ops (cascade_hasher m)
                     \<lparr>data = query, rows = sint nbQuery, cols = sint dimension\<rparr>
                     (GetZeroMeanDescriptor ops ?mm))
                  \<lparr>data = query, rows = sint nbQuery, cols = sint dimension\<rparr>
                  (hashed_base m) ?mm pvec_indices pvec_distances NN))"
    using SearchNeighbours_built[OF assms, of plat query nbQuery pvec_indices pvec_distances NN]
    by (simp only: zm)
  have g: "GetZeroMeanDescriptor (cascade_hasher_ops cfg draw) v = ZeroMean (rows_of v)"
    by (simp add: cascade_hasher_ops_def)
  have h: "hashed_desc (CreateHashedDescriptions (cascade_hasher_ops cfg draw) model v zero_mean) =
           map (\<lambda>row.
                 \<lparr>zero_centered = map2 (-) row zero_mean,
                  primary_code = binarize (primary_projection model) (map2 (-) row zero_mean),
                  secondary_code = binarize (secondary_projection model) (map2 (-) row zero_mean)\<rparr>)
             (rows_of v)"
    by (simp add: cascade_hasher_ops_def hashed_descriptions_def Hash_def hash_row_def Let_def)
  show ?thesis using zm hb s g h by blast
qed

theorem zero_mean_reused_witness:
  "zero_mean_descriptor sample_index = [5, 5] \<and>
   SearchNeighbours sample_platform sample_ops sample_index [1, 1] 1 [] [] 1 =
     Inr (True,
      Match_HashedDescriptions sample_ops (cascade_hasher sample_index)
        (CreateHashedDescriptions sample_ops (cascade_hasher sample_index)
           \<lparr>data = [1, 1], rows = 1, cols = 2\<rparr> [5, 5])
        \<lparr>data = [1, 1], rows = 1, cols = 2\<rparr> (hashed_base sample_index)
        \<lparr>data = sample_dataset, rows = 4, cols = 2\<rparr> [] [] 1) \<and>
   map zero_centered
     (hashed_desc (CreateHashedDescriptions sample_ops (cascade_hasher sample_index)
        \<lparr>data = [1, 1], rows = 1, cols = 2\<rparr> [5, 5])) = [[- 4, - 4]] \<and>
   map zero_centered (hashed_desc (hashed_base sample_index)) =
     [[- 5, - 5], [5, 5], [- 5, 5], [5, - 5]]"
proof -
  have z: "GetZeroMeanDescriptor sample_ops \<lparr>data = sample_dataset, rows = 4, cols = 2\<rparr> = [5, 5]"
    by code_simp
  have r: "\<not> reserves_throw sample_platform 1 1" by code_simp
  note T = zero_mean_reused[OF sample_built, where plat = sample_platform and NN = 1
      and query = "[1, 1]" and nbQuery = 1 and pvec_indices = "[]" and pvec_distances = "[]"
      and cfg = sample_config and draw = sample_draw]
  have p1: "zero_mean_descriptor sample_index = [5, 5]"
    using T[THEN conjunct1] z by simp
  have p2: "SearchNeighbours sample_platform sample_ops sample_index [1, 1] 1 [] [] 1 =
     Inr (True,
      Match_HashedDescriptions sample_ops (cascade_hasher sample_index)
        (CreateHashedDescriptions sample_ops (cascade_hasher sample_index)
           \<lparr>data = [1, 1], rows = 1, cols = 2\<rparr> [5, 5])
        \<lparr>data = [1, 1], rows = 1, cols = 2\<rparr> (hashed_base sample_index)
        \<lparr>data = sample_dataset, rows = 4, cols = 2\<rparr> [] [] 1)"
    using T[THEN conjunct2, THEN conjunct2, THEN conjunct1] z r by simp
  have p3: "map zero_centered
     (hashed_desc (CreateHashedDescriptions sample_ops (cascade_hasher sample_index)
        \<lparr>data = [1, 1], rows = 1, cols = 2\<rparr> [5, 5])) = [[- 4, - 4]]"
    by code_simp
  have p4: "map zero_centered (hashed_desc (hashed_base sample_index)) =
     [[- 5, - 5], [5, 5], [- 5, 5], [5, - 5]]"
    by code_simp
  show ?thesis using p1 p2 p3 p4 by blast
qed

subsection \<open>A batch of one query row\<close>

text \<open>
  C10. On a built index and with \<open>k\<close> at most the number of rows, a batch of exactly one
  query row is accepted and handed to the hasher's matcher; batch search returns false
  exactly when the batch is empty; and single-query search fails all the same.
\<close>

theorem single_row_batch_accepted:
  assumes "Build ops m0 gen dataset nbRows dimension = (True, m, gen')"
    and "unat NN \<le> nat (sint nbRows)"
  shows "SearchNeighbours plat ops m query 1 pvec_indices pvec_distances NN =
           Inr (True,
            Match_HashedDescriptions ops (cascade_hasher m)
              (CreateHashedDescriptions ops (cascade_hasher m)
                 \<lparr>data = query, rows = 1, cols = sint dimension\<rparr> (zero_mean_descriptor m))
              \<lparr>data = query, rows = 1, cols = sint dimension\<rparr>
              (hashed_base m)
              \<lparr>data = dataset, rows = sint nbRows, cols = sint dimension\<rparr>
              pvec_indices pvec_distances NN) \<and>
         (SearchNeighbours plat ops m query nbQuery pvec_indices pvec_distances NN =
            Inr (False, pvec_indices, pvec_distances) \<longleftrightarrow> sint nbQuery < 1) \<and>
         fst (SearchNeighbour LOG_WARNING m query indice distance logged) = False"
proof -
  have a: "SearchNeighbours plat ops m query 1 pvec_indices pvec_distances NN =
           Inr (True,
            Match_HashedDescriptions ops (cascade_hasher m)
              (CreateHashedDescriptions ops (cascade_hasher m)
                 \<lparr>data = query, rows = 1, cols = sint dimension\<rparr> (zero_mean_descriptor m))
              \<lparr>data = query, rows = 1, cols = sint dimension\<rparr>
              (hashed_base m)
              \<lparr>data = dataset, rows = sint nbRows, cols = sint dimension\<rparr>
              pvec_indices pvec_distances NN)"
    using assms(2) one_row_reserve[OF assms(2), of plat]
    by (simp add: SearchNeighbours_built[OF assms(1)])
  have b: "(SearchNeighbours plat ops m query nbQuery pvec_indices pvec_distances NN =
            Inr (False, pvec_indices, pvec_distances)) = (sint nbQuery < 1)"
    using assms(2) by (simp add: SearchNeighbours_built[OF assms(1)])
  have c: "fst (SearchNeighbour LOG_WARNING m query indice distance logged) = False"
    by (simp add: SearchNeighbour_def)
  show ?thesis using a b c by blast
qed

theorem single_row_batch_accepted_witness:
  "(\<exists>out. SearchNeighbours sample_platform sample_ops sample_index [1, 1] 1 [] [] 1 =
      Inr (True, out)) \<and>
   SearchNeighbours sample_platform sample_ops sample_index [] 0 [] [] 1 = Inr (False, [], []) \<and>
   SearchNeighbours sample_platform sample_ops large_index [] 2147483647 [] [] 2147483647 \<noteq>
     Inr (False, [], []) \<and>
   fst (SearchNeighbour sample_log sample_index [1, 1] 0 (0 :: rat) []) = False"
proof -
  have k: "unat (1 :: size_t) \<le> nat (sint (4 :: c_int))" by simp
  have K: "unat (2147483647 :: size_t) \<le> nat (sint (2147483647 :: c_int))" by simp
  show ?thesis
    using single_row_batch_accepted[OF sample_built k, where plat = sample_platform
        and query = "[1, 1]" and pvec_indices = "[]" and pvec_distances = "[]" and nbQuery = 0
        and indice = 0 and distance = "0 :: rat" and logged = "[]" and LOG_WARNING = sample_log]
      single_row_batch_accepted[OF sample_built k, where plat = sample_platform
        and query = "[]" and pvec_indices = "[]" and pvec_distances = "[]" and nbQuery = 0
        and indice = 0 and distance = "0 :: rat" and logged = "[]" and LOG_WARNING = sample_log]
      single_row_batch_accepted[OF large_built K, where plat = sample_platform
        and query = "[]" and pvec_indices = "[]" and pvec_distances = "[]"
        and nbQuery = 2147483647
        and indice = 0 and distance = "0 :: rat" and logged = "[]" and LOG_WARNING = sample_log]
    by simp
qed

end
